theory Spec2Isabelle
  imports Complex_Main
begin

section \<open>Strings and numbers of the worker\<close>

text \<open>
  A JavaScript string is a sequence of UTF-16 code units; it is modelled as the list of
  those code units. \<open>js\<close> turns an ASCII literal into such a list. Seat numbers, bus
  capacities and row ids are non-negative integers below \<open>2^53\<close>, where the doubles
  of the source are exact; they are natural numbers here.
\<close>

type_synonym jsstring = "nat list"

definition js :: "string \<Rightarrow> jsstring" where
  "js s = map of_char s"

text \<open>\<^verbatim>\<open>String(n)\<close> for a non-negative integer: its decimal digits.\<close>

function String_nat :: "nat \<Rightarrow> jsstring" where
  "String_nat n = (if n < 10 then [48 + n] else String_nat (n div 10) @ [48 + n mod 10])"
  by pat_completeness auto
termination
  by (relation "measure id") auto

declare String_nat.simps [simp del]

text \<open>\<^verbatim>\<open>Number(s)\<close> for a string of decimal digits (the capture of \<^verbatim>\<open>\d+\<close>).\<close>

definition Number_digits :: "jsstring \<Rightarrow> nat" where
  "Number_digits ds = foldl (\<lambda>acc c. 10 * acc + (c - 48)) 0 ds"

definition isDigit :: "nat \<Rightarrow> bool" where
  "isDigit c \<longleftrightarrow> 48 \<le> c \<and> c \<le> 57"

text \<open>The code units that \<^verbatim>\<open>String.prototype.trim\<close> removes (white space and line terminators).\<close>

definition isWhiteSpace :: "nat \<Rightarrow> bool" where
  "isWhiteSpace c \<longleftrightarrow>
     c \<in> {9, 10, 11, 12, 13, 32, 160, 5760, 8232, 8233, 8239, 8287, 12288, 65279}
     \<or> (8192 \<le> c \<and> c \<le> 8202)"

definition trim :: "jsstring \<Rightarrow> jsstring" where
  "trim s = rev (dropWhile isWhiteSpace (rev (dropWhile isWhiteSpace s)))"

text \<open>
  \<^verbatim>\<open>toUpperCase\<close> on the ASCII letters. The case mapping of code units above 127 is
  not modelled: the strings of this development are ASCII.
\<close>

definition toUpperCase :: "jsstring \<Rightarrow> jsstring" where
  "toUpperCase s = map (\<lambda>c. if 97 \<le> c \<and> c \<le> 122 then c - 32 else c) s"

definition toLowerCase :: "jsstring \<Rightarrow> jsstring" where
  "toLowerCase s = map (\<lambda>c. if 65 \<le> c \<and> c \<le> 90 then c + 32 else c) s"

section \<open>Seat key normalizer\<close>

text \<open>
  The capture of \<^verbatim>\<open>0*(\d+)\<close> and of \<^verbatim>\<open>0*(\d{1,2})\<close> on a non-empty string of digits:
  the greedy \<^verbatim>\<open>0*\<close> takes every leading zero, and gives one back when nothing else is left.
\<close>

definition afterZeros :: "jsstring \<Rightarrow> jsstring" where
  "afterZeros ds = (let r = dropWhile (\<lambda>c. c = 48) ds in if r = [] then [48] else r)"

text \<open>\<^verbatim>\<open>raw.match(/^L?0*(\d+)$/)\<close>: the capture group when the string matches.\<close>

definition matchNumeric :: "jsstring \<Rightarrow> jsstring option" where
  "matchNumeric raw =
     (let ds = (case raw of [] \<Rightarrow> [] | c # rest \<Rightarrow> if c = 76 then rest else raw)
      in if ds \<noteq> [] \<and> list_all isDigit ds then Some (afterZeros ds) else None)"

text \<open>\<^verbatim>\<open>raw.match(/^([A-Z])0*(\d{1,2})$/)\<close>: the code unit of the letter and the second capture.\<close>

definition matchLegacy :: "jsstring \<Rightarrow> (nat \<times> jsstring) option" where
  "matchLegacy raw =
     (case raw of
        [] \<Rightarrow> None
      | c # ds \<Rightarrow>
          if 65 \<le> c \<and> c \<le> 90 \<and> ds \<noteq> [] \<and> list_all isDigit ds \<and> length (afterZeros ds) \<le> 2
          then Some (c, afterZeros ds) else None)"

text \<open>
  \<^verbatim>\<open>normalizeSeatNumberRaw(seatValue, capacity = 50)\<close>. A \<^verbatim>\<open>null\<close> seat value and the
  empty string both give \<^verbatim>\<open>null\<close>; \<^verbatim>\<open>Number(capacity || 50)\<close> replaces a zero capacity by 50.
\<close>

definition normalizeSeatNumberRaw :: "jsstring \<Rightarrow> nat \<Rightarrow> jsstring option" where
  "normalizeSeatNumberRaw seatValue capacity =
     (let raw = toUpperCase (trim seatValue);
          cap = (if capacity = 0 then 50 else capacity)
      in if raw = [] then None
         else case matchNumeric raw of
           Some digits \<Rightarrow>
             (let n = Number_digits digits
              in if n < 1 \<or> n > cap then None else Some (String_nat n))
         | None \<Rightarrow>
             (case matchLegacy raw of
                Some (letter, digits) \<Rightarrow>
                  (let row = letter - 65; col = Number_digits digits
                   in if col < 1 \<or> col > 10 then None
                      else let n = row * 10 + col
                           in if n < 1 \<or> n > cap then None else Some (String_nat n))
              | None \<Rightarrow> None))"

text \<open>
  \<^verbatim>\<open>canonicalSeatToLegacy(canonicalSeat)\<close>, on \<open>n = Number(canonicalSeat)\<close>.
  \<^verbatim>\<open>String.fromCharCode\<close> reduces its argument modulo \<open>2^16\<close>.
\<close>

definition canonicalSeatToLegacy :: "nat \<Rightarrow> jsstring option" where
  "canonicalSeatToLegacy n =
     (if n < 1 then None
      else let row = (n - 1) div 10; col = (n - 1) mod 10 + 1
           in Some (((65 + row) mod 65536) # String_nat col))"

section \<open>Persistence layer\<close>

text \<open>
  The D1 database is a record of tables; a table is the list of its rows in rowid order.
  A nullable integer column is a \<open>nat option\<close>. A \<^verbatim>\<open>NULL\<close> text column is the empty
  string: every comparison of the source is against a non-empty string, where the two agree.
  Points of time (\<^verbatim>\<open>datetime('now')\<close>, \<^verbatim>\<open>expires_at\<close>) are seconds on one clock, and a
  request reads the clock once.
\<close>

text \<open>
  A finite JavaScript number (a price, an amount) is an exact real number: the rounding of
  IEEE doubles is not modelled.
\<close>

type_synonym jsnumber = real

record route_row =
  route_id :: nat
  route_name :: jsstring

record bus_row =
  bus_id :: nat
  bus_route_id :: "nat option"
  bus_name :: jsstring
  bus_capacity :: nat
  bus_available_seats :: nat
  bus_price :: jsnumber

record trip_row =
  trip_id :: nat
  trip_route_id :: nat
  trip_bus_id :: nat
  trip_status :: jsstring

record passenger_row =
  passenger_id :: nat
  passenger_first_name :: jsstring
  passenger_last_name :: jsstring
  passenger_email :: jsstring
  passenger_phone :: jsstring
  passenger_nok_name :: jsstring
  passenger_nok_phone :: jsstring

record booking_row =
  booking_id :: nat
  booking_passenger_id :: nat
  booking_bus_id :: nat
  booking_trip_id :: "nat option"
  booking_seat_number :: jsstring
  booking_price_paid :: jsnumber
  booking_status :: jsstring
  booking_external_ref :: jsstring

record lock_row =
  lock_id :: nat
  lock_bus_id :: nat
  lock_trip_id :: "nat option"
  lock_seat_number :: jsstring
  lock_locked_by :: jsstring
  lock_expires_at :: nat

record user_row =
  user_id :: nat
  user_email :: jsstring
  user_first_name :: jsstring
  user_last_name :: jsstring
  user_phone :: jsstring
  user_password_hash :: jsstring
  user_auth_method :: jsstring

record session_row =
  session_user_id :: nat
  session_token :: jsstring
  session_expires_at :: nat

record receipt_row =
  receipt_booking_id :: nat
  receipt_url :: jsstring
  receipt_drive_file_id :: "jsstring option"

text \<open>A text message handed to the SMS gateway by \<^verbatim>\<open>sendSMS\<close>.\<close>

record sms_message =
  sms_to :: jsstring
  sms_booking_id :: "nat option"
  sms_seat_text :: jsstring
  sms_amount :: jsnumber
  sms_receipt_url :: "jsstring option"

record database =
  routes :: "route_row list"
  buses :: "bus_row list"
  trip_schedules :: "trip_row list"
  passengers :: "passenger_row list"
  bookings :: "booking_row list"
  seat_locks :: "lock_row list"
  users :: "user_row list"
  auth_sessions :: "session_row list"
  booking_receipts :: "receipt_row list"
  sms_sent :: "sms_message list"

text \<open>\<^verbatim>\<open>meta.last_row_id\<close> of an insert: one more than the largest rowid of the table.\<close>

definition next_rowid :: "nat list \<Rightarrow> nat" where
  "next_rowid ids = Suc (foldr max ids 0)"

text \<open>\<^verbatim>\<open>x || null\<close> on a nullable id: zero is falsy.\<close>

definition truthy :: "nat option \<Rightarrow> nat option" where
  "truthy x = (case x of None \<Rightarrow> None | Some n \<Rightarrow> if n = 0 then None else Some n)"

text \<open>\<^verbatim>\<open>COALESCE(trip_id, -1)\<close>.\<close>

definition coalesce_trip :: "nat option \<Rightarrow> int" where
  "coalesce_trip t = (case t of None \<Rightarrow> - 1 | Some n \<Rightarrow> int n)"

section \<open>Responses and errors\<close>

text \<open>Each constructor stands for the message of one \<^verbatim>\<open>throw new Error(...)\<close> of the source.\<close>

datatype error =
    TripNotFoundForBus
  | TripNotActive
  | BusNotFound
  | InvalidSeatNumber
  | SeatAlreadyLocked
  | SeatAlreadyBooked "jsstring option"
  | SeatCurrentlyLocked
  | SeatSelectionRequired
  | PaymentReferenceRequired
  | MissingPaystackSecret
  | PaystackVerifyFailed
  | InvalidPaystackResponse
  | PaymentVerificationFailed
  | PaymentNotSuccessful
  | PaymentAmountMismatch
  | LockExpired jsstring
  | LockIdRequired
  | AllFieldsRequired
  | PasswordTooShort
  | UserAlreadyExists
  | TokenRequired
  | InvalidToken
  | TokenExpired
  | UserNotFound
  | Forbidden
  | MissingRequiredFields
  | InvalidWebhookSignature
  | InvalidJson

record seats_view =
  sv_trip_id :: "nat option"
  sv_available :: "jsstring list"
  sv_locked :: "jsstring list"
  sv_own_locked :: "jsstring list"
  sv_booked :: "jsstring list"

record lock_view =
  lv_lock_id :: jsstring
  lv_trip_id :: "nat option"
  lv_seat :: jsstring
  lv_expires_at :: nat

record confirmation =
  cf_booking_id :: "nat option"
  cf_booking_ids :: "nat option list"
  cf_passenger_name :: "jsstring \<times> jsstring"
  cf_route_name :: jsstring
  cf_bus_name :: jsstring
  cf_seats :: "jsstring list"
  cf_seat_count :: nat
  cf_price :: jsnumber
  cf_phone :: jsstring
  cf_email :: jsstring
  cf_duplicate :: bool
  cf_receipt_url :: "jsstring option"

record auth_view =
  av_token :: jsstring
  av_user_id :: nat
  av_is_admin :: bool

record manual_view =
  mv_booking_id :: "nat option"
  mv_route_name :: jsstring
  mv_bus_name :: jsstring
  mv_seat :: jsstring
  mv_price :: jsnumber
  mv_external_ref :: jsstring
  mv_receipt_url :: "jsstring option"

datatype body =
    ErrorBody error
  | ManualBody manual_view
  | SeatsBody seats_view
  | LockBody lock_view
  | ConfirmBody confirmation
  | ReceivedBody
  | AuthBody auth_view

record response =
  http_status :: nat
  http_body :: body

definition failure :: "nat \<Rightarrow> error \<Rightarrow> response" where
  "failure code e = \<lparr>http_status = code, http_body = ErrorBody e\<rparr>"

definition success :: "body \<Rightarrow> response" where
  "success b = \<lparr>http_status = 200, http_body = b\<rparr>"

section \<open>Collaborators outside the worker\<close>

datatype paystack_reply =
    NetworkFailure
  | HttpFailure nat
  | InvalidBody
  | VerifyData jsstring jsnumber

record gas_payload =
  gp_booking_id :: "nat option"
  gp_route_name :: jsstring
  gp_bus_name :: jsstring
  gp_seat :: jsstring
  gp_amount :: jsnumber
  gp_phone :: jsstring
  gp_email :: jsstring
  gp_paystack_ref :: "jsstring option"
  gp_source :: jsstring

record gas_result =
  gas_receipt_url :: "jsstring option"
  gas_drive_file_id :: "jsstring option"

record webhook_event =
  ev_event :: jsstring
  ev_reference :: jsstring

text \<open>
  The environment of a request: the configured secrets, and what the services and the
  random sources outside the worker answer. \<open>paystack_fetch\<close> is the processor's verify
  endpoint, \<open>gas_fetch\<close> the receipt service (\<open>None\<close> when it is not configured, fails
  or answers no JSON), \<open>hmac_sha512\<close> the bytes of \<^verbatim>\<open>crypto.subtle.sign\<close>, \<open>json_parse\<close>
  the event read by \<^verbatim>\<open>JSON.parse\<close> (\<open>None\<close> when it throws), \<open>random_lock_id\<close> the
  \<^verbatim>\<open>lock_<time>_<random>\<close> string drawn for the request, \<open>random_ref\<close> the same for a
  manual booking, \<open>hash_password\<close> the salted PBKDF2 string and \<open>generate_token\<close> the
  random session token.
\<close>

record env =
  PAYSTACK_SECRET_KEY :: jsstring
  ADMIN_EMAILS :: jsstring
  paystack_fetch :: "jsstring \<Rightarrow> paystack_reply"
  gas_fetch :: "gas_payload \<Rightarrow> gas_result option"
  hmac_sha512 :: "jsstring \<Rightarrow> jsstring \<Rightarrow> nat list"
  json_parse :: "jsstring \<Rightarrow> webhook_event option"
  random_lock_id :: jsstring
  random_ref :: jsstring
  hash_password :: "jsstring \<Rightarrow> jsstring"
  generate_token :: "nat \<Rightarrow> jsstring"

section \<open>Trip resolver and seat queries\<close>

text \<open>The row with the largest id (\<^verbatim>\<open>ORDER BY id DESC LIMIT 1\<close>).\<close>

definition latest_trip :: "trip_row list \<Rightarrow> trip_row option" where
  "latest_trip rows =
     foldl (\<lambda>best r. case best of None \<Rightarrow> Some r
                      | Some b \<Rightarrow> if trip_id b < trip_id r then Some r else Some b) None rows"

definition resolveTripForBus :: "database \<Rightarrow> nat \<Rightarrow> nat option \<Rightarrow> error + trip_row option" where
  "resolveTripForBus db busId tripId =
     (case truthy tripId of
        Some t \<Rightarrow>
          (case find (\<lambda>r. trip_id r = t \<and> trip_bus_id r = busId) (trip_schedules db) of
             None \<Rightarrow> Inl TripNotFoundForBus
           | Some trip \<Rightarrow>
               if trip_status trip \<noteq> js ''active'' then Inl TripNotActive else Inr (Some trip))
      | None \<Rightarrow>
          Inr (latest_trip
                 (filter (\<lambda>r. trip_bus_id r = busId \<and> trip_status r = js ''active'')
                    (trip_schedules db))))"

text \<open>\<^verbatim>\<open>trip?.id || null\<close>.\<close>

definition tripKeyOf :: "trip_row option \<Rightarrow> nat option" where
  "tripKeyOf trip = truthy (map_option trip_id trip)"

text \<open>\<^verbatim>\<open>canonicalSeatToLegacy(seatKey) || seatKey\<close>.\<close>

definition legacySeatOf :: "jsstring \<Rightarrow> jsstring" where
  "legacySeatOf seatKey =
     (case canonicalSeatToLegacy (Number_digits seatKey) of None \<Rightarrow> seatKey | Some l \<Rightarrow> l)"

text \<open>\<^verbatim>\<open>out.add(key)\<close> on a \<^verbatim>\<open>Set\<close>, which keeps insertion order.\<close>

definition set_add :: "'a list \<Rightarrow> 'a \<Rightarrow> 'a list" where
  "set_add out k = (if k \<in> set out then out else out @ [k])"

definition uniqueNormalizedSeatList :: "jsstring list \<Rightarrow> nat \<Rightarrow> jsstring list" where
  "uniqueNormalizedSeatList seat_numbers capacity =
     sort_key Number_digits
       (foldl (\<lambda>out s. case normalizeSeatNumberRaw s capacity of
                          None \<Rightarrow> out | Some key \<Rightarrow> set_add out key) [] seat_numbers)"

definition getBusCapacity :: "database \<Rightarrow> nat \<Rightarrow> error + nat" where
  "getBusCapacity db busId =
     (case find (\<lambda>b. bus_id b = busId) (buses db) of
        None \<Rightarrow> Inl BusNotFound
      | Some bus \<Rightarrow> Inr (if bus_capacity bus > 0 then bus_capacity bus else 50))"

definition confirmedRowsForBusTrip :: "database \<Rightarrow> nat \<Rightarrow> nat option \<Rightarrow> booking_row list" where
  "confirmedRowsForBusTrip db busId tripId =
     (case truthy tripId of
        Some t \<Rightarrow> filter (\<lambda>r. booking_bus_id r = busId \<and> booking_trip_id r = Some t
                              \<and> booking_status r = js ''confirmed'') (bookings db)
      | None \<Rightarrow> filter (\<lambda>r. booking_bus_id r = busId \<and> booking_status r = js ''confirmed'')
                  (bookings db))"

definition listConfirmedSeatNumbersForBusTrip ::
  "database \<Rightarrow> nat \<Rightarrow> nat option \<Rightarrow> nat \<Rightarrow> jsstring list" where
  "listConfirmedSeatNumbersForBusTrip db busId tripId capacity =
     uniqueNormalizedSeatList (map booking_seat_number (confirmedRowsForBusTrip db busId tripId))
       capacity"

definition listActiveLocksForBusTrip :: "database \<Rightarrow> nat \<Rightarrow> nat \<Rightarrow> nat option \<Rightarrow> lock_row list" where
  "listActiveLocksForBusTrip db now busId tripId =
     (case truthy tripId of
        Some t \<Rightarrow> filter (\<lambda>l. lock_bus_id l = busId \<and> lock_trip_id l = Some t
                              \<and> lock_expires_at l > now) (seat_locks db)
      | None \<Rightarrow> filter (\<lambda>l. lock_bus_id l = busId \<and> lock_expires_at l > now) (seat_locks db))"


definition hasConfirmedSeat :: "database \<Rightarrow> nat \<Rightarrow> nat option \<Rightarrow> jsstring \<Rightarrow> nat \<Rightarrow> bool" where
  "hasConfirmedSeat db busId tripId seatKey capacity \<longleftrightarrow>
     seatKey \<in> set (listConfirmedSeatNumbersForBusTrip db busId tripId capacity)"


definition findOwnedActiveLockForSeat ::
  "database \<Rightarrow> nat \<Rightarrow> nat \<Rightarrow> nat option \<Rightarrow> jsstring \<Rightarrow> jsstring \<Rightarrow> nat \<Rightarrow> lock_row option" where
  "findOwnedActiveLockForSeat db now busId tripId lockId seatKey capacity =
     find (\<lambda>r. normalizeSeatNumberRaw (lock_seat_number r) capacity = Some seatKey)
       (filter (\<lambda>l. lock_locked_by l = lockId) (listActiveLocksForBusTrip db now busId tripId))"

section \<open>Seat availability engine\<close>

text \<open>
  \<^verbatim>\<open>handleGetBusSeats\<close>. \<open>tripIdParam\<close> is \<^verbatim>\<open>Number(url.searchParams.get('tripId') || 0)\<close>
  (zero when absent or not a number), \<open>lockIdParam\<close> the \<^verbatim>\<open>lockId\<close> query parameter (empty
  when absent). Every thrown error is answered with status 500.
\<close>

definition handleGetBusSeats :: "database \<Rightarrow> nat \<Rightarrow> nat \<Rightarrow> nat \<Rightarrow> jsstring \<Rightarrow> response" where
  "handleGetBusSeats db now busId tripIdParam lockIdParam =
     (let tripId = (if tripIdParam > 0 then Some tripIdParam else None);
          ownLockId = trim lockIdParam
      in case resolveTripForBus db busId tripId of
           Inl e \<Rightarrow> failure 500 e
         | Inr trip \<Rightarrow>
            (case getBusCapacity db busId of
               Inl e \<Rightarrow> failure 500 e
             | Inr capacity \<Rightarrow>
                (let allSeats = map (\<lambda>i. String_nat (i + 1)) [0..<capacity];
                     bookedSeats =
                       listConfirmedSeatNumbersForBusTrip db busId (tripKeyOf trip) capacity;
                     activeLocks = listActiveLocksForBusTrip db now busId (tripKeyOf trip);
                     own = (\<lambda>l. ownLockId \<noteq> [] \<and> lock_locked_by l = ownLockId);
                     ownLocked =
                       uniqueNormalizedSeatList (map lock_seat_number (filter own activeLocks))
                         capacity;
                     lockedSeats =
                       uniqueNormalizedSeatList
                         (map lock_seat_number (filter (\<lambda>l. \<not> own l) activeLocks)) capacity;
                     available =
                       filter (\<lambda>s. s \<notin> set bookedSeats \<and> s \<notin> set lockedSeats) allSeats
                 in success (SeatsBody
                      \<lparr>sv_trip_id = tripKeyOf trip, sv_available = available,
                       sv_locked = lockedSeats, sv_own_locked = ownLocked,
                       sv_booked = bookedSeats\<rparr>))))"

section \<open>Seat lock manager\<close>

text \<open>
  The two clean-up statements of \<^verbatim>\<open>handleLockSeat\<close>: the expired locks of the seat (in
  canonical or legacy form) are deleted, and in trip-aware mode the locks of the seat
  that belong to no trip or to another trip.
\<close>

definition cleanupSeatLocks ::
  "database \<Rightarrow> nat \<Rightarrow> nat \<Rightarrow> jsstring \<Rightarrow> jsstring \<Rightarrow> nat option \<Rightarrow> database" where
  "cleanupSeatLocks db now busId seatKey legacySeat tripKey =
     (let db1 = db\<lparr>seat_locks :=
                  filter (\<lambda>l. \<not> (lock_bus_id l = busId
                       \<and> (lock_seat_number l = seatKey \<or> lock_seat_number l = legacySeat)
                       \<and> lock_expires_at l \<le> now)) (seat_locks db)\<rparr>
      in case tripKey of
           None \<Rightarrow> db1
         | Some t \<Rightarrow> db1\<lparr>seat_locks :=
             filter (\<lambda>l. \<not> (lock_bus_id l = busId
                  \<and> (lock_seat_number l = seatKey \<or> lock_seat_number l = legacySeat)
                  \<and> (lock_trip_id l = None \<or> lock_trip_id l \<noteq> Some t)))
               (seat_locks db1)\<rparr>)"

text \<open>
  \<^verbatim>\<open>handleLockSeat\<close>. \<open>tripId\<close> is \<^verbatim>\<open>body.tripId || null\<close> and \<open>lockId\<close> is
  \<^verbatim>\<open>body.lockId\<close> (empty when absent). The clean-up stays in force when the request
  fails afterwards. Every thrown error is answered with status 400.
\<close>

definition handleLockSeat ::
  "env \<Rightarrow> database \<Rightarrow> nat \<Rightarrow> nat \<Rightarrow> jsstring \<Rightarrow> nat option \<Rightarrow> jsstring \<Rightarrow> response \<times> database" where
  "handleLockSeat e db now busId seat tripId lockId =
     (case resolveTripForBus db busId tripId of
        Inl err \<Rightarrow> (failure 400 err, db)
      | Inr trip \<Rightarrow>
         (case getBusCapacity db busId of
            Inl err \<Rightarrow> (failure 400 err, db)
          | Inr capacity \<Rightarrow>
             (case normalizeSeatNumberRaw seat capacity of
                None \<Rightarrow> (failure 400 InvalidSeatNumber, db)
              | Some seatKey \<Rightarrow>
                 (let tripKey = tripKeyOf trip;
                      legacySeat = legacySeatOf seatKey;
                      requestedLockId = trim lockId;
                      lockOwner = (if requestedLockId = [] then random_lock_id e
                                   else requestedLockId);
                      db2 = cleanupSeatLocks db now busId seatKey legacySeat tripKey;
                      activeLocks = listActiveLocksForBusTrip db2 now busId tripKey;
                      matchingLock =
                        find (\<lambda>l. normalizeSeatNumberRaw (lock_seat_number l) capacity
                                     = Some seatKey) activeLocks
                  in if (case matchingLock of None \<Rightarrow> False
                         | Some m \<Rightarrow> lock_locked_by m \<noteq> lockOwner)
                     then (failure 400 SeatAlreadyLocked, db2)
                     else if hasConfirmedSeat db2 busId tripKey seatKey capacity
                     then (failure 400 (SeatAlreadyBooked None), db2)
                     else
                       (let expiresAt = now + 300;
                            db3 = (case matchingLock of
                                     Some m \<Rightarrow> db2\<lparr>seat_locks :=
                                       map (\<lambda>l. if lock_id l = lock_id m
                                                 then l\<lparr>lock_expires_at := expiresAt\<rparr> else l)
                                         (seat_locks db2)\<rparr>
                                   | None \<Rightarrow> db2\<lparr>seat_locks := seat_locks db2 @
                                       [\<lparr>lock_id = next_rowid (map lock_id (seat_locks db2)),
                                         lock_bus_id = busId, lock_trip_id = tripKey,
                                         lock_seat_number = seatKey, lock_locked_by = lockOwner,
                                         lock_expires_at = expiresAt\<rparr>]\<rparr>)
                        in (success (LockBody
                              \<lparr>lv_lock_id = lockOwner, lv_trip_id = tripKey, lv_seat = seatKey,
                               lv_expires_at = expiresAt\<rparr>), db3))))))"

section \<open>Booking finalizer\<close>

text \<open>
  SQLite's \<^verbatim>\<open>LIKE\<close>: \<^verbatim>\<open>%\<close> (37) matches any run of characters, \<^verbatim>\<open>_\<close> (95) any one
  character, and the ASCII letters match without regard to case.
\<close>

fun sqlLike :: "jsstring \<Rightarrow> jsstring \<Rightarrow> bool" where
  "sqlLike [] t = (t = [])"
| "sqlLike (p # ps) [] = (p = 37 \<and> sqlLike ps [])"
| "sqlLike (p # ps) (c # cs) =
     (if p = 37 then sqlLike ps (c # cs) \<or> sqlLike (p # ps) cs
      else if p = 95 then sqlLike ps cs
      else toLowerCase [p] = toLowerCase [c] \<and> sqlLike ps cs)"

text \<open>\<^verbatim>\<open>WHERE external_ref = ? OR external_ref LIKE ?\<close>, bound to \<open>ref\<close> and \<open>ref:%\<close>.\<close>

definition refMatches :: "jsstring \<Rightarrow> booking_row \<Rightarrow> bool" where
  "refMatches ref b \<longleftrightarrow>
     booking_external_ref b = ref \<or> sqlLike (ref @ js '':%'') (booking_external_ref b)"

record booking_payload =
  bp_passengerId :: nat
  bp_busId :: nat
  bp_tripId :: "nat option"
  bp_seatNumber :: jsstring
  bp_legacySeatNumber :: jsstring
  bp_pricePaid :: jsnumber
  bp_externalRef :: jsstring

record insert_result =
  inserted :: bool
  bookingId :: "nat option"

text \<open>
  \<^verbatim>\<open>insertConfirmedBookingAtomic\<close>: one \<^verbatim>\<open>INSERT ... SELECT ... WHERE NOT EXISTS\<close>
  statement. An empty \<open>bp_legacySeatNumber\<close> stands for \<^verbatim>\<open>null\<close>.
\<close>

definition insertConfirmedBookingAtomic ::
  "database \<Rightarrow> booking_payload \<Rightarrow> insert_result \<times> database" where
  "insertConfirmedBookingAtomic db payload =
     (let legacy = (if bp_legacySeatNumber payload = [] then bp_seatNumber payload
                    else bp_legacySeatNumber payload)
      in if list_ex (\<lambda>r. booking_bus_id r = bp_busId payload
                \<and> coalesce_trip (booking_trip_id r) = coalesce_trip (bp_tripId payload)
                \<and> (booking_seat_number r = bp_seatNumber payload \<or> booking_seat_number r = legacy)
                \<and> booking_status r = js ''confirmed'') (bookings db)
         then (\<lparr>inserted = False, bookingId = None\<rparr>, db)
         else
           (let rowid = next_rowid (map booking_id (bookings db))
            in (\<lparr>inserted = True, bookingId = truthy (Some rowid)\<rparr>,
                db\<lparr>bookings := bookings db @
                  [\<lparr>booking_id = rowid, booking_passenger_id = bp_passengerId payload,
                    booking_bus_id = bp_busId payload, booking_trip_id = bp_tripId payload,
                    booking_seat_number = bp_seatNumber payload,
                    booking_price_paid = bp_pricePaid payload,
                    booking_status = js ''confirmed'',
                    booking_external_ref = bp_externalRef payload\<rparr>]\<rparr>)))"

definition getReceiptByBookingId :: "database \<Rightarrow> nat \<Rightarrow> receipt_row option" where
  "getReceiptByBookingId db bid =
     (if bid = 0 then None else find (\<lambda>r. receipt_booking_id r = bid) (booking_receipts db))"

text \<open>\<^verbatim>\<open>saveReceiptForBooking\<close>: an upsert on the unique \<^verbatim>\<open>booking_id\<close>.\<close>

definition saveReceiptForBooking ::
  "database \<Rightarrow> nat option \<Rightarrow> jsstring \<Rightarrow> jsstring option \<Rightarrow> database" where
  "saveReceiptForBooking db bid receiptUrl driveFileId =
     (case truthy bid of
        None \<Rightarrow> db
      | Some b \<Rightarrow>
          if receiptUrl = [] then db
          else if list_ex (\<lambda>r. receipt_booking_id r = b) (booking_receipts db)
          then db\<lparr>booking_receipts :=
                 map (\<lambda>r. if receipt_booking_id r = b
                           then r\<lparr>receipt_url := receiptUrl, receipt_drive_file_id := driveFileId\<rparr>
                           else r) (booking_receipts db)\<rparr>
          else db\<lparr>booking_receipts := booking_receipts db @
                 [\<lparr>receipt_booking_id = b, receipt_url = receiptUrl,
                   receipt_drive_file_id = driveFileId\<rparr>]\<rparr>)"

text \<open>\<^verbatim>\<open>gasResult?.receipt_url || gasResult?.receiptUrl || null\<close>.\<close>

definition receiptUrlOf :: "gas_result option \<Rightarrow> jsstring option" where
  "receiptUrlOf g =
     (case g of None \<Rightarrow> None
      | Some r \<Rightarrow> (case gas_receipt_url r of None \<Rightarrow> None
                   | Some u \<Rightarrow> if u = [] then None else Some u))"

definition sendSMS :: "database \<Rightarrow> sms_message \<Rightarrow> database" where
  "sendSMS db m = db\<lparr>sms_sent := sms_sent db @ [m]\<rparr>"

record verification =
  vf_verified :: bool
  vf_status :: jsstring
  vf_amountKobo :: jsnumber

definition verifyPaystackTransaction :: "env \<Rightarrow> jsstring \<Rightarrow> error + verification" where
  "verifyPaystackTransaction e reference =
     (if PAYSTACK_SECRET_KEY e = [] then Inl MissingPaystackSecret
      else case paystack_fetch e reference of
             NetworkFailure \<Rightarrow> Inl PaystackVerifyFailed
           | HttpFailure code \<Rightarrow> Inl PaystackVerifyFailed
           | InvalidBody \<Rightarrow> Inl InvalidPaystackResponse
           | VerifyData st amount \<Rightarrow>
               Inr \<lparr>vf_verified = True, vf_status = st, vf_amountKobo = amount\<rparr>)"

text \<open>
  The body of a confirm request. \<open>cr_price\<close> and \<open>cr_unitPrice\<close> are \<^verbatim>\<open>Number(price)\<close> and
  \<^verbatim>\<open>Number(unitPrice)\<close> when finite; \<open>cr_seats\<close> is empty when
  \<^verbatim>\<open>seats\<close> is no array; \<open>cr_tripId\<close> is \<^verbatim>\<open>tripId ? Number(tripId) : null\<close>.
\<close>

record confirm_request =
  cr_firstName :: jsstring
  cr_lastName :: jsstring
  cr_email :: jsstring
  cr_phone :: jsstring
  cr_nokName :: jsstring
  cr_nokPhone :: jsstring
  cr_seat :: "jsstring option"
  cr_seats :: "jsstring list"
  cr_busId :: nat
  cr_price :: "jsnumber option"
  cr_unitPrice :: "jsnumber option"
  cr_lockId :: jsstring
  cr_paystackRef :: jsstring
  cr_tripId :: "nat option"

text \<open>The loop that normalizes the requested seats and drops repetitions.\<close>

fun collectSeatKeys :: "jsstring list \<Rightarrow> nat \<Rightarrow> jsstring list \<Rightarrow> error + jsstring list" where
  "collectSeatKeys [] capacity seatKeys = Inr seatKeys"
| "collectSeatKeys (rawSeat # rest) capacity seatKeys =
     (case normalizeSeatNumberRaw rawSeat capacity of
        None \<Rightarrow> Inl InvalidSeatNumber
      | Some seatKey \<Rightarrow>
          collectSeatKeys rest capacity
            (if seatKey \<in> set seatKeys then seatKeys else seatKeys @ [seatKey]))"

record confirm_context =
  cx_trip :: "trip_row option"
  cx_tripKey :: "nat option"
  cx_capacity :: nat
  cx_seatKeys :: "jsstring list"

text \<open>The first part of \<^verbatim>\<open>handleBookingConfirm\<close>, up to the check of the payment reference.\<close>

definition confirmValidate :: "database \<Rightarrow> confirm_request \<Rightarrow> error + confirm_context" where
  "confirmValidate db data =
     (case resolveTripForBus db (cr_busId data) (cr_tripId data) of
        Inl err \<Rightarrow> Inl err
      | Inr trip \<Rightarrow>
         (case getBusCapacity db (cr_busId data) of
            Inl err \<Rightarrow> Inl err
          | Inr capacity \<Rightarrow>
             (let rawSeatList = (if cr_seats data \<noteq> [] then cr_seats data
                                 else case cr_seat data of None \<Rightarrow> [] | Some s \<Rightarrow> [s])
              in if rawSeatList = [] then Inl SeatSelectionRequired
                 else case collectSeatKeys rawSeatList capacity [] of
                        Inl err \<Rightarrow> Inl err
                      | Inr seatKeys \<Rightarrow>
                          if seatKeys = [] then Inl SeatSelectionRequired
                          else if cr_paystackRef data = [] then Inl PaymentReferenceRequired
                          else Inr \<lparr>cx_trip = trip, cx_tripKey = tripKeyOf trip,
                                    cx_capacity = capacity, cx_seatKeys = seatKeys\<rparr>)))"

text \<open>
  The idempotency query: bookings joined with their bus and the route of the bus,
  \<^verbatim>\<open>ORDER BY b.id ASC\<close>.
\<close>

definition existingRowsForRef ::
  "database \<Rightarrow> jsstring \<Rightarrow> (booking_row \<times> bus_row \<times> route_row) list" where
  "existingRowsForRef db ref =
     sort_key (\<lambda>(b, bus, r). booking_id b)
       (concat (map (\<lambda>b.
          concat (map (\<lambda>bus.
            map (\<lambda>r. (b, bus, r))
              (filter (\<lambda>r. bus_route_id bus = Some (route_id r)) (routes db)))
            (filter (\<lambda>bus. bus_id bus = booking_bus_id b) (buses db))))
          (filter (refMatches ref) (bookings db))))"

text \<open>The answer to a repeated payment reference.\<close>

definition duplicateConfirmation ::
  "database \<Rightarrow> confirm_request \<Rightarrow> nat \<Rightarrow> (booking_row \<times> bus_row \<times> route_row) list \<Rightarrow> confirmation" where
  "duplicateConfirmation db data capacity existingRows =
     (let first = hd existingRows;
          existingReceipt = getReceiptByBookingId db (booking_id (fst first));
          normalizedSeats =
            filter (\<lambda>s. s \<noteq> [])
              (map (\<lambda>(b, bus, r).
                 case normalizeSeatNumberRaw (booking_seat_number b)
                        (if bus_capacity bus = 0 then capacity else bus_capacity bus) of
                   None \<Rightarrow> booking_seat_number b | Some k \<Rightarrow> k) existingRows);
          totalPaid = sum_list (map (\<lambda>(b, bus, r). booking_price_paid b) existingRows)
      in \<lparr>cf_booking_id = Some (booking_id (fst first)),
          cf_booking_ids = map (\<lambda>(b, bus, r). Some (booking_id b)) existingRows,
          cf_passenger_name = (cr_firstName data, cr_lastName data),
          cf_route_name = route_name (snd (snd first)),
          cf_bus_name = bus_name (fst (snd first)),
          cf_seats = normalizedSeats,
          cf_seat_count = length normalizedSeats,
          cf_price = totalPaid,
          cf_phone = cr_phone data,
          cf_email = cr_email data,
          cf_duplicate = True,
          cf_receipt_url =
            (case existingReceipt of None \<Rightarrow> None
             | Some r \<Rightarrow> if receipt_url r = [] then None else Some (receipt_url r))\<rparr>)"

text \<open>\<^verbatim>\<open>Math.round(Number(price) * 100)\<close>, which rounds a half upwards.\<close>

definition expectedKobo :: "jsnumber \<Rightarrow> int" where
  "expectedKobo price = \<lfloor>price * 100 + 1 / 2\<rfloor>"

text \<open>The payment checks that follow the idempotency check.\<close>

definition confirmVerify :: "env \<Rightarrow> confirm_request \<Rightarrow> error + verification" where
  "confirmVerify e data =
     (case verifyPaystackTransaction e (cr_paystackRef data) of
        Inl err \<Rightarrow> Inl err
      | Inr v \<Rightarrow>
          if \<not> vf_verified v then Inl PaymentVerificationFailed
          else if vf_status v \<noteq> js ''success'' then Inl PaymentNotSuccessful
          else case cr_price data of
                 None \<Rightarrow> Inr v
               | Some price \<Rightarrow>
                   if vf_amountKobo v \<noteq> of_int (expectedKobo price)
                   then Inl PaymentAmountMismatch else Inr v)"

text \<open>The loop that proves ownership of a lock for every seat.\<close>

fun collectOwnedLocks ::
  "database \<Rightarrow> nat \<Rightarrow> nat \<Rightarrow> nat option \<Rightarrow> jsstring \<Rightarrow> nat \<Rightarrow> jsstring list \<Rightarrow> error + lock_row list" where
  "collectOwnedLocks db now busId tripKey lockId capacity [] = Inr []"
| "collectOwnedLocks db now busId tripKey lockId capacity (seatKey # rest) =
     (case findOwnedActiveLockForSeat db now busId tripKey lockId seatKey capacity of
        None \<Rightarrow> Inl (LockExpired seatKey)
      | Some lock \<Rightarrow>
          (case collectOwnedLocks db now busId tripKey lockId capacity rest of
             Inl err \<Rightarrow> Inl err
           | Inr locks \<Rightarrow> Inr (lock # locks)))"

text \<open>The roll-back of a refused insertion: the bookings created so far, then the passenger.\<close>

definition rollbackBookings :: "database \<Rightarrow> nat option list \<Rightarrow> nat \<Rightarrow> database" where
  "rollbackBookings db createdBookingIds passengerId =
     (let db1 = foldl (\<lambda>d bid. d\<lparr>bookings :=
                         filter (\<lambda>r. Some (booking_id r) \<noteq> bid) (bookings d)\<rparr>)
                  db createdBookingIds
      in db1\<lparr>passengers := filter (\<lambda>p. passenger_id p \<noteq> passengerId) (passengers db1)\<rparr>)"

text \<open>
  The loop that inserts one booking per seat. \<open>Inl seatKey\<close> is the seat whose insertion
  was refused, after the roll-back.
\<close>

fun insertSeatBookings ::
  "database \<Rightarrow> nat \<Rightarrow> nat \<Rightarrow> nat option \<Rightarrow> jsnumber \<Rightarrow> jsstring \<Rightarrow> bool \<Rightarrow> jsstring list
     \<Rightarrow> nat option list \<Rightarrow> (jsstring + nat option list) \<times> database" where
  "insertSeatBookings db passengerId busId tripKey perSeatPaid ref single [] created =
     (Inr created, db)"
| "insertSeatBookings db passengerId busId tripKey perSeatPaid ref single (seatKey # rest) created =
     (let legacySeat = legacySeatOf seatKey;
          externalRef = (if single then ref else ref @ js '':'' @ seatKey);
          (bookingInsert, db1) = insertConfirmedBookingAtomic db
             \<lparr>bp_passengerId = passengerId, bp_busId = busId, bp_tripId = tripKey,
              bp_seatNumber = seatKey, bp_legacySeatNumber = legacySeat,
              bp_pricePaid = perSeatPaid, bp_externalRef = externalRef\<rparr>
      in if \<not> inserted bookingInsert
         then (Inl seatKey, rollbackBookings db1 created passengerId)
         else insertSeatBookings db1 passengerId busId tripKey perSeatPaid ref single rest
                (created @ [bookingId bookingInsert]))"

text \<open>\<^verbatim>\<open>UPDATE buses SET available_seats = capacity - confirmed\<close>, in trip-aware mode only.\<close>

definition refreshAvailableSeats :: "database \<Rightarrow> nat \<Rightarrow> nat option \<Rightarrow> database" where
  "refreshAvailableSeats db busId tripKey =
     (case tripKey of
        None \<Rightarrow> db
      | Some t \<Rightarrow>
         (let busCap = (case find (\<lambda>b. bus_id b = busId) (buses db) of
                          None \<Rightarrow> 0 | Some b \<Rightarrow> bus_capacity b);
              c = length (filter (\<lambda>r. booking_bus_id r = busId \<and> booking_trip_id r = Some t
                                      \<and> booking_status r = js ''confirmed'') (bookings db));
              remaining = busCap - c
          in db\<lparr>buses := map (\<lambda>b. if bus_id b = busId
                                   then b\<lparr>bus_available_seats := remaining\<rparr> else b) (buses db)\<rparr>))"

text \<open>\<^verbatim>\<open>seatKeys.join(', ')\<close>.\<close>

fun joinSeats :: "jsstring list \<Rightarrow> jsstring" where
  "joinSeats [] = []"
| "joinSeats [s] = s"
| "joinSeats (s # rest) = s @ js '', '' @ joinSeats rest"

text \<open>The name of the route of a booking: of the trip when there is one, else of the bus.\<close>

definition routeNameFor :: "database \<Rightarrow> trip_row option \<Rightarrow> nat option \<Rightarrow> jsstring" where
  "routeNameFor db trip busRoute =
     (case (case truthy (map_option trip_route_id trip) of
              Some r \<Rightarrow> Some r | None \<Rightarrow> truthy busRoute) of
        None \<Rightarrow> js ''Route''
      | Some rid \<Rightarrow>
          (case find (\<lambda>r. route_id r = rid) (routes db) of
             None \<Rightarrow> js ''Route''
           | Some r \<Rightarrow> if route_name r = [] then js ''Route'' else route_name r))"

text \<open>
  The last part of \<^verbatim>\<open>handleBookingConfirm\<close>, after every seat has been inserted: the
  consumed locks are deleted, the seat hint refreshed, the receipt requested and stored,
  the text message sent.
\<close>

definition confirmFinish ::
  "env \<Rightarrow> database \<Rightarrow> confirm_request \<Rightarrow> confirm_context \<Rightarrow> lock_row list \<Rightarrow> nat option list
     \<Rightarrow> response \<times> database" where
  "confirmFinish e db data cx ownedLocks createdBookingIds =
     (let bid = hd createdBookingIds;
          totalPaid = (case cr_price data of None \<Rightarrow> 0 | Some p \<Rightarrow> p);
          db1 = db\<lparr>seat_locks :=
                   filter (\<lambda>l. lock_id l \<notin> set (map lock_id ownedLocks)) (seat_locks db)\<rparr>;
          db2 = refreshAvailableSeats db1 (cr_busId data) (cx_tripKey cx);
          busInfo = find (\<lambda>b. bus_id b = cr_busId data) (buses db2);
          busName = (case busInfo of None \<Rightarrow> js ''Unknown Bus''
                     | Some b \<Rightarrow> if bus_name b = [] then js ''Unknown Bus'' else bus_name b);
          routeName = routeNameFor db2 (cx_trip cx)
                        (case busInfo of None \<Rightarrow> None | Some b \<Rightarrow> bus_route_id b);
          seatText = joinSeats (cx_seatKeys cx);
          gasResult = gas_fetch e
             \<lparr>gp_booking_id = bid, gp_route_name = routeName, gp_bus_name = busName,
              gp_seat = seatText, gp_amount = totalPaid, gp_phone = cr_phone data,
              gp_email = cr_email data, gp_paystack_ref = Some (cr_paystackRef data),
              gp_source = js ''customer_paystack''\<rparr>;
          receiptUrl = receiptUrlOf gasResult;
          db3 = (case receiptUrl of
                   None \<Rightarrow> db2
                 | Some u \<Rightarrow>
                     foldl (\<lambda>d i. saveReceiptForBooking d i u
                              (case gasResult of None \<Rightarrow> None | Some g \<Rightarrow> gas_drive_file_id g))
                       db2 createdBookingIds);
          db4 = sendSMS db3
             \<lparr>sms_to = cr_phone data, sms_booking_id = bid, sms_seat_text = seatText,
              sms_amount = totalPaid, sms_receipt_url = receiptUrl\<rparr>
      in (success (ConfirmBody
            \<lparr>cf_booking_id = bid, cf_booking_ids = createdBookingIds,
             cf_passenger_name = (cr_firstName data, cr_lastName data),
             cf_route_name = routeName, cf_bus_name = busName,
             cf_seats = cx_seatKeys cx, cf_seat_count = length (cx_seatKeys cx),
             cf_price = totalPaid, cf_phone = cr_phone data, cf_email = cr_email data,
             cf_duplicate = False, cf_receipt_url = receiptUrl\<rparr>), db4))"

text \<open>
  \<^verbatim>\<open>handleBookingConfirm\<close>: validation, idempotency check, payment verification, proof of
  lock ownership, the passenger row, one conditional insert per seat, then the side
  effects. Every thrown error is answered with status 400.
\<close>

definition handleBookingConfirm ::
  "env \<Rightarrow> database \<Rightarrow> nat \<Rightarrow> confirm_request \<Rightarrow> response \<times> database" where
  "handleBookingConfirm e db now data =
     (case confirmValidate db data of
        Inl err \<Rightarrow> (failure 400 err, db)
      | Inr cx \<Rightarrow>
         (let existingRows = existingRowsForRef db (cr_paystackRef data)
          in if existingRows \<noteq> []
             then (success (ConfirmBody
                     (duplicateConfirmation db data (cx_capacity cx) existingRows)), db)
             else case confirmVerify e data of
                    Inl err \<Rightarrow> (failure 400 err, db)
                  | Inr v \<Rightarrow>
                     (case collectOwnedLocks db now (cr_busId data) (cx_tripKey cx)
                             (cr_lockId data) (cx_capacity cx) (cx_seatKeys cx) of
                        Inl err \<Rightarrow> (failure 400 err, db)
                      | Inr ownedLocks \<Rightarrow>
                         (let passengerId = next_rowid (map passenger_id (passengers db));
                              db1 = db\<lparr>passengers := passengers db @
                                 [\<lparr>passenger_id = passengerId,
                                   passenger_first_name = cr_firstName data,
                                   passenger_last_name = cr_lastName data,
                                   passenger_email = cr_email data,
                                   passenger_phone = cr_phone data,
                                   passenger_nok_name = cr_nokName data,
                                   passenger_nok_phone = cr_nokPhone data\<rparr>]\<rparr>;
                              totalPaid = (case cr_price data of None \<Rightarrow> 0 | Some p \<Rightarrow> p);
                              perSeatPaid =
                                (case cr_unitPrice data of
                                   None \<Rightarrow> totalPaid / of_nat (length (cx_seatKeys cx))
                                 | Some u \<Rightarrow> if u > 0 then u
                                             else totalPaid / of_nat (length (cx_seatKeys cx)))
                          in case insertSeatBookings db1 passengerId (cr_busId data)
                                    (cx_tripKey cx) perSeatPaid (cr_paystackRef data)
                                    (length (cx_seatKeys cx) = 1) (cx_seatKeys cx) [] of
                               (Inl seatKey, db2) \<Rightarrow>
                                 (failure 400 (SeatAlreadyBooked (Some seatKey)), db2)
                             | (Inr createdBookingIds, db2) \<Rightarrow>
                                 confirmFinish e db2 data cx ownedLocks createdBookingIds))))"

section \<open>Payment webhook receiver\<close>

text \<open>\<^verbatim>\<open>b.toString(16).padStart(2, '0')\<close> for a byte.\<close>

definition hexDigit :: "nat \<Rightarrow> nat" where
  "hexDigit d = (if d < 10 then 48 + d else 87 + d)"

definition hexByte :: "nat \<Rightarrow> jsstring" where
  "hexByte b = [hexDigit (b div 16 mod 16), hexDigit (b mod 16)]"

definition hmacSha512Hex :: "env \<Rightarrow> jsstring \<Rightarrow> jsstring \<Rightarrow> jsstring" where
  "hmacSha512Hex e secret payload = concat (map hexByte (hmac_sha512 e secret payload))"

text \<open>\<^verbatim>\<open>timingSafeEqual\<close>: the loop ors the xor of every pair of code units.\<close>

definition timingSafeEqual :: "jsstring \<Rightarrow> jsstring \<Rightarrow> bool" where
  "timingSafeEqual a b =
     (if a = [] \<or> b = [] \<or> length a \<noteq> length b then False
      else foldl (\<lambda>out (x, y). or out (xor x y)) (0::nat) (zip a b) = 0)"

text \<open>
  \<^verbatim>\<open>handleWebhookBookingFallback\<close>: the newest booking of the reference with its passenger
  and bus; a receipt is requested when none is stored, and the text message is sent only
  when no receipt row existed.
\<close>

definition latestBooking ::
  "(booking_row \<times> passenger_row \<times> bus_row) list \<Rightarrow> (booking_row \<times> passenger_row \<times> bus_row) option" where
  "latestBooking rows =
     foldl (\<lambda>best r. case best of None \<Rightarrow> Some r
                      | Some b \<Rightarrow> if booking_id (fst b) < booking_id (fst r) then Some r else Some b)
       None rows"

definition handleWebhookBookingFallback :: "env \<Rightarrow> database \<Rightarrow> jsstring \<Rightarrow> database" where
  "handleWebhookBookingFallback e db reference =
     (if reference = [] then db
      else case latestBooking
             (concat (map (\<lambda>b.
                concat (map (\<lambda>p. map (\<lambda>bus. (b, p, bus))
                    (filter (\<lambda>bus. bus_id bus = booking_bus_id b) (buses db)))
                  (filter (\<lambda>p. passenger_id p = booking_passenger_id b) (passengers db))))
                (filter (refMatches reference) (bookings db)))) of
        None \<Rightarrow> db
      | Some (booking, p, bus) \<Rightarrow>
         (let existingReceipt = getReceiptByBookingId db (booking_id booking);
              storedUrl = (case existingReceipt of None \<Rightarrow> None
                           | Some r \<Rightarrow> if receipt_url r = [] then None else Some (receipt_url r));
              normalizedSeat =
                (case normalizeSeatNumberRaw (booking_seat_number booking)
                        (if bus_capacity bus = 0 then 50 else bus_capacity bus) of
                   None \<Rightarrow> booking_seat_number booking | Some k \<Rightarrow> k);
              ts = (case booking_trip_id booking of None \<Rightarrow> None
                    | Some t \<Rightarrow> find (\<lambda>r. trip_id r = t) (trip_schedules db));
              rid = (case ts of Some t \<Rightarrow> Some (trip_route_id t) | None \<Rightarrow> bus_route_id bus);
              routeRow = (case rid of None \<Rightarrow> None
                          | Some i \<Rightarrow> find (\<lambda>r. route_id r = i) (routes db));
              routeName = (case routeRow of None \<Rightarrow> js ''Route''
                           | Some r \<Rightarrow> if route_name r = [] then js ''Route'' else route_name r);
              busName = (if bus_name bus = [] then js ''Bus'' else bus_name bus);
              gasResult = (case storedUrl of
                             Some u \<Rightarrow> None
                           | None \<Rightarrow> gas_fetch e
                               \<lparr>gp_booking_id = Some (booking_id booking),
                                gp_route_name = routeName, gp_bus_name = busName,
                                gp_seat = normalizedSeat,
                                gp_amount = booking_price_paid booking,
                                gp_phone = passenger_phone p, gp_email = passenger_email p,
                                gp_paystack_ref = Some (booking_external_ref booking),
                                gp_source = js ''paystack_webhook_fallback''\<rparr>);
              receiptUrl = (case storedUrl of Some u \<Rightarrow> Some u | None \<Rightarrow> receiptUrlOf gasResult);
              db1 = (case storedUrl of
                       Some u \<Rightarrow> db
                     | None \<Rightarrow>
                        (case receiptUrl of
                           None \<Rightarrow> db
                         | Some u \<Rightarrow> saveReceiptForBooking db (Some (booking_id booking)) u
                             (case gasResult of None \<Rightarrow> None | Some g \<Rightarrow> gas_drive_file_id g)))
          in if existingReceipt = None
             then sendSMS db1
                    \<lparr>sms_to = passenger_phone p, sms_booking_id = Some (booking_id booking),
                     sms_seat_text = normalizedSeat, sms_amount = booking_price_paid booking,
                     sms_receipt_url = receiptUrl\<rparr>
             else db1))"

text \<open>
  \<^verbatim>\<open>handlePaystackWebhook\<close>, on the raw body and the \<^verbatim>\<open>x-paystack-signature\<close> header
  (empty when absent). An event without \<^verbatim>\<open>event\<close> or \<^verbatim>\<open>data.reference\<close> has the empty
  string there.
\<close>

definition handlePaystackWebhook ::
  "env \<Rightarrow> database \<Rightarrow> jsstring \<Rightarrow> jsstring \<Rightarrow> response \<times> database" where
  "handlePaystackWebhook e db rawBody signature =
     (let secretKey = PAYSTACK_SECRET_KEY e
      in if secretKey = [] then (failure 500 MissingPaystackSecret, db)
         else
           (let expectedSignature = hmacSha512Hex e secretKey rawBody
            in if \<not> timingSafeEqual signature expectedSignature
               then (failure 401 InvalidWebhookSignature, db)
               else case json_parse e rawBody of
                      None \<Rightarrow> (failure 400 InvalidJson, db)
                    | Some event \<Rightarrow>
                        if ev_event event = js ''charge.success'' \<and> ev_reference event \<noteq> []
                        then
                          (let reference = ev_reference event;
                               db1 = db\<lparr>bookings :=
                                 map (\<lambda>b. if refMatches reference b
                                           then b\<lparr>booking_status := js ''confirmed''\<rparr> else b)
                                   (bookings db)\<rparr>
                           in (success ReceivedBody,
                               handleWebhookBookingFallback e db1 reference))
                        else (success ReceivedBody, db)))"

section \<open>Authentication and sessions\<close>

text \<open>\<^verbatim>\<open>raw.split(',')\<close>.\<close>

fun splitOn :: "nat \<Rightarrow> jsstring \<Rightarrow> jsstring list" where
  "splitOn sep [] = [[]]"
| "splitOn sep (c # cs) =
     (if c = sep then [] # splitOn sep cs
      else case splitOn sep cs of [] \<Rightarrow> [[c]] | w # ws \<Rightarrow> (c # w) # ws)"

definition parseAdminEmails :: "env \<Rightarrow> jsstring list" where
  "parseAdminEmails e =
     (let raw = trim (ADMIN_EMAILS e)
      in if raw = [] then []
         else filter (\<lambda>a. a \<noteq> []) (map (\<lambda>a. toLowerCase (trim a)) (splitOn 44 raw)))"

definition isAdminEmail :: "env \<Rightarrow> jsstring \<Rightarrow> bool" where
  "isAdminEmail e email \<longleftrightarrow> email \<noteq> [] \<and> toLowerCase email \<in> set (parseAdminEmails e)"


record signup_request =
  su_firstName :: jsstring
  su_lastName :: jsstring
  su_email :: jsstring
  su_phone :: jsstring
  su_password :: jsstring

text \<open>
  \<^verbatim>\<open>handleEmailSignUp\<close>. A missing field is the empty string; the length of the password
  is its number of code units. A session lasts seven days.
\<close>

definition handleEmailSignUp ::
  "env \<Rightarrow> database \<Rightarrow> nat \<Rightarrow> signup_request \<Rightarrow> response \<times> database" where
  "handleEmailSignUp e db now data =
     (if su_firstName data = [] \<or> su_lastName data = [] \<or> su_email data = []
         \<or> su_phone data = [] \<or> su_password data = []
      then (failure 400 AllFieldsRequired, db)
      else if length (su_password data) < 6 then (failure 400 PasswordTooShort, db)
      else if find (\<lambda>u. user_email u = su_email data) (users db) \<noteq> None
      then (failure 400 UserAlreadyExists, db)
      else
        (let passwordHash = hash_password e (su_password data);
             userId = next_rowid (map user_id (users db));
             db1 = db\<lparr>users := users db @
                     [\<lparr>user_id = userId, user_email = su_email data,
                       user_first_name = su_firstName data, user_last_name = su_lastName data,
                       user_phone = su_phone data, user_password_hash = passwordHash,
                       user_auth_method = js ''email''\<rparr>]\<rparr>;
             db2 = db1\<lparr>passengers := passengers db1 @
                     [\<lparr>passenger_id = next_rowid (map passenger_id (passengers db1)),
                       passenger_first_name = su_firstName data,
                       passenger_last_name = su_lastName data,
                       passenger_email = su_email data, passenger_phone = su_phone data,
                       passenger_nok_name = [], passenger_nok_phone = []\<rparr>]\<rparr>;
             token = generate_token e userId;
             expiresAt = now + 7 * 24 * 60 * 60;
             db3 = db2\<lparr>auth_sessions := auth_sessions db2 @
                     [\<lparr>session_user_id = userId, session_token = token,
                       session_expires_at = expiresAt\<rparr>]\<rparr>
         in (success (AuthBody
               \<lparr>av_token = token, av_user_id = userId,
                av_is_admin = isAdminEmail e (su_email data)\<rparr>), db3)))"

section \<open>Administration: manual booking\<close>



section \<open>Derived notions used in the statements\<close>

text \<open>
  \<^verbatim>\<open>normalizeSeatNumberRaw(canonicalSeatToLegacy(n), capacity)\<close>: a \<^verbatim>\<open>null\<close> legacy key
  normalizes to \<^verbatim>\<open>null\<close>.
\<close>

definition normalizeLegacyOf :: "nat \<Rightarrow> nat \<Rightarrow> jsstring option" where
  "normalizeLegacyOf n capacity =
     (case canonicalSeatToLegacy n of
        None \<Rightarrow> None
      | Some l \<Rightarrow> normalizeSeatNumberRaw l capacity)"






text \<open>A canonical seat key: the decimal string of a positive number.\<close>

definition canonicalKey :: "jsstring \<Rightarrow> bool" where
  "canonicalKey k \<longleftrightarrow> k = String_nat (Number_digits k) \<and> 1 \<le> Number_digits k"

text \<open>
  A confirmed booking for the bus, the trip and the seat, in canonical or legacy form:
  the condition under which the conditional insert refuses.
\<close>

definition seatTaken :: "booking_row list \<Rightarrow> nat \<Rightarrow> nat option \<Rightarrow> jsstring \<Rightarrow> bool" where
  "seatTaken rows busId tripKey seatKey \<longleftrightarrow>
     (\<exists>r \<in> set rows. booking_status r = js ''confirmed'' \<and> booking_bus_id r = busId
        \<and> coalesce_trip (booking_trip_id r) = coalesce_trip tripKey
        \<and> (booking_seat_number r = seatKey \<or> booking_seat_number r = legacySeatOf seatKey))"





section \<open>Sample environment and data\<close>

text \<open>A database without rows, and an environment whose services answer with fixed values.\<close>

definition empty_database :: database where
  "empty_database =
     \<lparr>routes = [], buses = [], trip_schedules = [], passengers = [], bookings = [],
      seat_locks = [], users = [], auth_sessions = [], booking_receipts = [], sms_sent = []\<rparr>"

definition sample_env :: env where
  "sample_env =
     \<lparr>PAYSTACK_SECRET_KEY = js ''sk_test'',
      ADMIN_EMAILS = js ''ops@elite.test, admin@elite.test'',
      paystack_fetch = (\<lambda>ref. VerifyData (js ''success'') 5000),
      gas_fetch = (\<lambda>p. None),
      hmac_sha512 = (\<lambda>k m. replicate 64 171),
      json_parse = (\<lambda>b. Some \<lparr>ev_event = js ''charge.success'', ev_reference = js ''R9''\<rparr>),
      random_lock_id = js ''lock_1_abcdefgh'',
      random_ref = js ''admin_manual_1_abcdef'',
      hash_password = (\<lambda>p. js ''pbkdf2$120000$'' @ p),
      generate_token = (\<lambda>u. js ''tok_'' @ String_nat u)\<rparr>"

definition sample_signup :: signup_request where
  "sample_signup =
     \<lparr>su_firstName = js ''Ama'', su_lastName = js ''Mensah'',
      su_email = js ''ama@elite.test'', su_phone = js ''0240000000'',
      su_password = js ''abc12''\<rparr>"


text \<open>
  A bus of twelve seats with one confirmed booking (seat 4), two locks of the session
  \<open>LA\<close> (seats 5 and 4) and the session of an administrator, and requests on it.
\<close>

definition booking_db :: database where
  "booking_db = empty_database
     \<lparr>routes := [\<lparr>route_id = 2, route_name = js ''Accra - Kumasi''\<rparr>],
      buses := [\<lparr>bus_id = 3, bus_route_id = Some 2, bus_name = js ''VIP 1'', bus_capacity = 12,
                 bus_available_seats = 11, bus_price = 50\<rparr>],
      passengers := [\<lparr>passenger_id = 6, passenger_first_name = js ''Kofi'',
                      passenger_last_name = js ''Boateng'', passenger_email = js ''kofi@elite.test'',
                      passenger_phone = js ''0200000000'', passenger_nok_name = [],
                      passenger_nok_phone = []\<rparr>],
      bookings :=
        [\<lparr>booking_id = 8, booking_passenger_id = 6, booking_bus_id = 3, booking_trip_id = None,
          booking_seat_number = js ''4'', booking_price_paid = 50,
          booking_status = js ''confirmed'', booking_external_ref = js ''R0''\<rparr>],
      seat_locks :=
        [\<lparr>lock_id = 2, lock_bus_id = 3, lock_trip_id = None, lock_seat_number = js ''5'',
          lock_locked_by = js ''LA'', lock_expires_at = 400\<rparr>,
         \<lparr>lock_id = 4, lock_bus_id = 3, lock_trip_id = None, lock_seat_number = js ''4'',
          lock_locked_by = js ''LA'', lock_expires_at = 400\<rparr>],
      users := [\<lparr>user_id = 2, user_email = js ''Admin@elite.test'', user_first_name = js ''Esi'',
                 user_last_name = js ''Owusu'', user_phone = js ''0500000000'',
                 user_password_hash = js ''pbkdf2$120000$x'', user_auth_method = js ''email''\<rparr>],
      auth_sessions := [\<lparr>session_user_id = 2, session_token = js ''tok_2_1_abc'',
                         session_expires_at = 1000\<rparr>]\<rparr>"

definition confirm_seat_5 :: confirm_request where
  "confirm_seat_5 =
     \<lparr>cr_firstName = js ''Ama'', cr_lastName = js ''Mensah'', cr_email = js ''ama@elite.test'',
      cr_phone = js ''0240000000'', cr_nokName = js ''Yaw'', cr_nokPhone = js ''0270000000'',
      cr_seat = None, cr_seats = [js ''5''], cr_busId = 3, cr_price = Some 50,
      cr_unitPrice = Some 50, cr_lockId = js ''LA'', cr_paystackRef = js ''R1'',
      cr_tripId = None\<rparr>"

definition confirm_retry_R0 :: confirm_request where
  "confirm_retry_R0 = confirm_seat_5\<lparr>cr_paystackRef := js ''R0''\<rparr>"

definition confirm_seats_5_4 :: confirm_request where
  "confirm_seats_5_4 = confirm_seat_5\<lparr>cr_seats := [js ''5'', js ''4''], cr_unitPrice := Some 25\<rparr>"




section \<open>Facts about decimal strings\<close>

lemma Number_digits_append:
  "Number_digits (xs @ [c]) = 10 * Number_digits xs + (c - 48)"
  by (simp add: Number_digits_def)

lemma Number_digits_String_nat: "Number_digits (String_nat n) = n"
proof (induction n rule: String_nat.induct)
  case (1 n)
  show ?case
  proof (cases "n < 10")
    case True
    then show ?thesis
      by (subst String_nat.simps) (simp add: Number_digits_def)
  next
    case False
    with 1 show ?thesis
      by (subst String_nat.simps) (simp add: Number_digits_append)
  qed
qed


lemma String_nat_digits: "list_all isDigit (String_nat n)"
proof (induction n rule: String_nat.induct)
  case (1 n)
  show ?case
  proof (cases "n < 10")
    case True
    then show ?thesis
      by (subst String_nat.simps) (simp add: isDigit_def)
  next
    case False
    have "isDigit (48 + n mod 10)"
      by (simp add: isDigit_def)
    with False 1 show ?thesis
      by (subst String_nat.simps) simp
  qed
qed

lemma String_nat_nonempty: "String_nat n \<noteq> []"
  by (subst String_nat.simps) simp

lemma String_nat_hd: "0 < n \<Longrightarrow> hd (String_nat n) \<noteq> 48"
proof (induction n rule: String_nat.induct)
  case (1 n)
  show ?case
  proof (cases "n < 10")
    case True
    with 1 show ?thesis
      by (subst String_nat.simps) simp
  next
    case False
    then have "0 < n div 10" by simp
    with False 1 have "hd (String_nat (n div 10)) \<noteq> 48" by simp
    with False show ?thesis
      by (subst String_nat.simps) (simp add: String_nat_nonempty)
  qed
qed

lemma isDigit_not_space: "isDigit c \<Longrightarrow> \<not> isWhiteSpace c"
  by (auto simp: isDigit_def isWhiteSpace_def)

lemma digits_no_space: "list_all isDigit s \<Longrightarrow> list_all (\<lambda>c. \<not> isWhiteSpace c) s"
  by (induction s) (auto simp: isDigit_not_space)

lemma trim_id:
  assumes "s \<noteq> []" and "\<not> isWhiteSpace (hd s)" and "\<not> isWhiteSpace (last s)"
  shows "trim s = s"
proof -
  from assms have a: "dropWhile isWhiteSpace s = s"
    by (simp add: dropWhile_eq_self_iff)
  from assms have "dropWhile isWhiteSpace (rev s) = rev s"
    by (simp add: dropWhile_eq_self_iff hd_rev)
  with a show ?thesis by (simp add: trim_def)
qed

lemma toUpperCase_id:
  "list_all (\<lambda>c. \<not> (97 \<le> c \<and> c \<le> 122)) s \<Longrightarrow> toUpperCase s = s"
  by (induction s) (auto simp: toUpperCase_def)

lemma afterZeros_id: "s \<noteq> [] \<Longrightarrow> hd s \<noteq> 48 \<Longrightarrow> afterZeros s = s"
  by (cases s) (auto simp: afterZeros_def)

lemma String_nat_small: "n < 10 \<Longrightarrow> String_nat n = [48 + n]"
  by (subst String_nat.simps) simp

lemma String_nat_length2: "n < 100 \<Longrightarrow> length (String_nat n) \<le> 2"
  by (subst String_nat.simps) (simp add: String_nat_small)

lemma digits_last: "s \<noteq> [] \<Longrightarrow> list_all isDigit s \<Longrightarrow> isDigit (last s)"
  by (induction s) auto

lemma digits_upper: "list_all isDigit s \<Longrightarrow> list_all (\<lambda>c. \<not> (97 \<le> c \<and> c \<le> 122)) s"
  by (induction s) (auto simp: isDigit_def)

section \<open>Seat keys: legacy and canonical forms\<close>

lemma legacy_row_not_L:
  "1 \<le> n \<Longrightarrow> \<not> (111 \<le> n \<and> n \<le> 120) \<Longrightarrow> (n - 1) div 10 \<noteq> (11::nat)"
  by arith

lemma normalize_legacy_form:
  assumes row25: "row \<le> 25" and row11: "row \<noteq> 11"
    and col: "1 \<le> col" "col \<le> 10" and cap: "row * 10 + col \<le> capacity"
  shows "normalizeSeatNumberRaw ((65 + row) # String_nat col) capacity
           = Some (String_nat (row * 10 + col))"
proof -
  define l where "l = (65 + row) # String_nat col"
  have dcol: "list_all isDigit (String_nat col)" by (rule String_nat_digits)
  have ne: "String_nat col \<noteq> []" by (rule String_nat_nonempty)
  have "isDigit (last (String_nat col))" using ne dcol by (rule digits_last)
  then have lastl: "\<not> isWhiteSpace (last l)"
    using ne by (simp add: l_def isDigit_not_space)
  have hdl: "\<not> isWhiteSpace (hd l)"
    using row25 by (simp add: l_def isWhiteSpace_def)
  have tr: "trim l = l" using lastl hdl by (intro trim_id) (simp_all add: l_def)
  have up: "toUpperCase l = l"
    using row25 digits_upper[OF dcol] by (intro toUpperCase_id) (simp add: l_def)
  have mn: "matchNumeric l = None"
    using row11 row25 by (simp add: matchNumeric_def l_def isDigit_def)
  have az: "afterZeros (String_nat col) = String_nat col"
    using col by (intro afterZeros_id ne String_nat_hd) simp
  have len: "length (String_nat col) \<le> 2"
    using col by (intro String_nat_length2) simp
  have ml: "matchLegacy l = Some (65 + row, String_nat col)"
    using row25 ne dcol az len by (simp add: matchLegacy_def l_def)
  have lne: "l \<noteq> []" by (simp add: l_def)
  have "normalizeSeatNumberRaw l capacity = Some (String_nat (row * 10 + col))"
    using cap col lne
    by (simp add: normalizeSeatNumberRaw_def tr up mn ml Number_digits_String_nat Let_def)
  then show ?thesis by (simp add: l_def)
qed

text \<open>
  Claim C7, as amended. For every seat \<open>n\<close> in \<open>[1..capacity]\<close> that lies in the rows
  \<open>A\<close> to \<open>Z\<close> of the legacy scheme (\<open>n \<le> 260\<close>) and outside row \<open>L\<close> (seats 111 to 120),
  normalizing the legacy key of \<open>n\<close> gives the decimal string of \<open>n\<close> back.
\<close>

theorem legacy_roundtrip:
  assumes "1 \<le> n" and "n \<le> capacity" and "n \<le> 260" and "\<not> (111 \<le> n \<and> n \<le> 120)"
  shows "normalizeLegacyOf n capacity = Some (String_nat n)"
proof -
  define row where "row = (n - 1) div 10"
  define col where "col = (n - 1) mod 10 + 1"
  have row25: "row \<le> 25" using assms(3) by (simp add: row_def)
  have row11: "row \<noteq> 11" using assms(1,4) unfolding row_def by (rule legacy_row_not_L)
  have col: "1 \<le> col" "col \<le> 10" by (simp_all add: col_def)
  have n: "row * 10 + col = n" using assms(1) by (simp add: row_def col_def)
  have leg: "canonicalSeatToLegacy n = Some ((65 + row) # String_nat col)"
    using assms(1) row25 by (simp add: canonicalSeatToLegacy_def row_def col_def Let_def)
  have "normalizeSeatNumberRaw ((65 + row) # String_nat col) capacity
          = Some (String_nat (row * 10 + col))"
    using row25 row11 col assms(2) n by (intro normalize_legacy_form) simp_all
  with leg n show ?thesis by (simp add: normalizeLegacyOf_def)
qed

theorem legacy_roundtrip_witness:
  "(1::nat) \<le> 38 \<and> (38::nat) \<le> 50 \<and> (38::nat) \<le> 260 \<and> \<not> (111 \<le> (38::nat) \<and> (38::nat) \<le> 120)
   \<and> normalizeLegacyOf 38 50 = Some (String_nat 38)"
  using legacy_roundtrip [of 38 50] by simp

text \<open>
  Claim C7, as stated, fails on a bus of 120 seats: the legacy key of seat 111 is \<open>L1\<close>,
  which the normalizer reads as the \<open>L\<close>-prefixed decimal 1.
\<close>

theorem legacy_roundtrip_fails_in_row_L:
  "(1::nat) \<le> 111 \<and> (111::nat) \<le> 120
   \<and> canonicalSeatToLegacy 111 = Some (js ''L1'')
   \<and> normalizeLegacyOf 111 120 = Some (js ''1'')
   \<and> String_nat 111 = js ''111''
   \<and> normalizeLegacyOf 111 120 \<noteq> Some (String_nat 111)"
proof -
  have a: "canonicalSeatToLegacy 111 = Some (js ''L1'')"
    by (simp add: canonicalSeatToLegacy_def js_def String_nat_small)
  have b: "normalizeSeatNumberRaw (js ''L1'') 120 = Some (js ''1'')"
    by (simp add: normalizeSeatNumberRaw_def js_def trim_def toUpperCase_def isWhiteSpace_def
        matchNumeric_def isDigit_def afterZeros_def Number_digits_def String_nat_small)
  have c: "String_nat 111 = js ''111''"
    by code_simp
  have d: "js ''1'' \<noteq> js ''111''"
    by (simp add: js_def)
  from a b c d show ?thesis by (simp add: normalizeLegacyOf_def)
qed

section \<open>Sign-up\<close>

text \<open>
  Claim C10. A sign-up whose password has fewer than six code units is answered with
  status 400 and leaves the database as it was: no user, passenger or session row is
  created.
\<close>

theorem short_password_refused:
  assumes "length (su_password data) < 6"
  shows "http_status (fst (handleEmailSignUp e db now data)) = 400
         \<and> users (snd (handleEmailSignUp e db now data)) = users db
         \<and> passengers (snd (handleEmailSignUp e db now data)) = passengers db
         \<and> auth_sessions (snd (handleEmailSignUp e db now data)) = auth_sessions db
         \<and> snd (handleEmailSignUp e db now data) = db"
  using assms by (simp add: handleEmailSignUp_def failure_def)

theorem short_password_refused_witness:
  "length (su_password sample_signup) < 6
   \<and> handleEmailSignUp sample_env empty_database 0 sample_signup
        = (failure 400 PasswordTooShort, empty_database)"
  using short_password_refused [of sample_signup sample_env empty_database 0]
  by (simp add: handleEmailSignUp_def sample_signup_def js_def)

section \<open>Unknown buses\<close>

lemma find_None_bus:
  "find (\<lambda>b. bus_id b = busId) (buses db) = None \<Longrightarrow> getBusCapacity db busId = Inl BusNotFound"
  by (simp add: getBusCapacity_def)

text \<open>
  Claim C9, as amended. When \<open>busId\<close> names no bus row, the seat listing is answered with
  status 500 and the lock request with status 400, and the lock request changes nothing.
\<close>

theorem unknown_bus_status:
  assumes "find (\<lambda>b. bus_id b = busId) (buses db) = None"
  shows "http_status (handleGetBusSeats db now busId tripIdParam lockIdParam) = 500
         \<and> http_status (fst (handleLockSeat e db now busId seat tripId lockId)) = 400
         \<and> snd (handleLockSeat e db now busId seat tripId lockId) = db"
  using assms
  by (simp add: handleGetBusSeats_def handleLockSeat_def find_None_bus failure_def Let_def
      split: sum.splits)

theorem unknown_bus_status_witness:
  "find (\<lambda>b. bus_id b = 7) (buses empty_database) = None
   \<and> handleGetBusSeats empty_database 0 7 0 [] = failure 500 BusNotFound
   \<and> handleLockSeat sample_env empty_database 0 7 (js ''5'') None []
        = (failure 400 BusNotFound, empty_database)"
  using unknown_bus_status [of 7 empty_database 0 0 "[]" sample_env "js ''5''" None "[]"]
  by (simp add: handleGetBusSeats_def handleLockSeat_def getBusCapacity_def resolveTripForBus_def
       truthy_def latest_trip_def empty_database_def)

text \<open>
  Claim C9, as stated, fails: on a database without buses the seat listing of bus 7 is
  answered with status 500 and the lock request with status 400, neither with 404.
\<close>

theorem unknown_bus_not_404:
  "getBusCapacity empty_database 7 = Inl BusNotFound
   \<and> http_status (handleGetBusSeats empty_database 0 7 0 []) = 500
   \<and> http_status (handleGetBusSeats empty_database 0 7 0 []) \<noteq> 404
   \<and> http_status (fst (handleLockSeat sample_env empty_database 0 7 (js ''5'') None [])) = 400
   \<and> http_status (fst (handleLockSeat sample_env empty_database 0 7 (js ''5'') None [])) \<noteq> 404"
  by (simp add: handleGetBusSeats_def handleLockSeat_def getBusCapacity_def resolveTripForBus_def
       truthy_def latest_trip_def empty_database_def failure_def)

section \<open>Webhook signature\<close>

lemma xor_nat_eq0: "xor (x::nat) y = 0 \<longleftrightarrow> x = y"
proof
  assume h: "xor x y = 0"
  have "y = xor (xor x x) y" by simp
  also have "\<dots> = xor x (xor x y)" by (simp only: xor.assoc)
  also have "\<dots> = x" by (simp add: h)
  finally show "x = y" by simp
next
  assume "x = y" then show "xor x y = 0" by simp
qed

lemma timingSafeEqual_fold:
  "foldl (\<lambda>out (x, y). or out (xor x y)) acc ps = (0::nat)
     \<longleftrightarrow> acc = 0 \<and> (\<forall>(x, y) \<in> set ps. x = y)"
proof (induction ps arbitrary: acc)
  case Nil
  show ?case by simp
next
  case (Cons p ps)
  obtain x y where p: "p = (x, y)" by (cases p)
  show ?case
    by (simp add: Cons.IH p or_eq_0_iff xor_nat_eq0)
qed

lemma timingSafeEqual_iff: "timingSafeEqual a b \<longleftrightarrow> a \<noteq> [] \<and> a = b"
proof (cases "length a = length b")
  case False
  then have "a \<noteq> b" by auto
  with False show ?thesis by (simp add: timingSafeEqual_def)
next
  case True
  then have eq: "(\<forall>(x, y) \<in> set (zip a b). x = y) \<longleftrightarrow> a = b"
    by (simp add: list_eq_iff_zip_eq [of a b])
  show ?thesis
  proof (cases "a = []")
    case True
    then show ?thesis by (simp add: timingSafeEqual_def)
  next
    case False
    with True have "b \<noteq> []" by auto
    with False True show ?thesis
      by (simp add: timingSafeEqual_def timingSafeEqual_fold eq)
  qed
qed

lemma hmacSha512Hex_nonempty:
  "hmac_sha512 e k m \<noteq> [] \<Longrightarrow> hmacSha512Hex e k m \<noteq> []"
  by (cases "hmac_sha512 e k m") (simp_all add: hmacSha512Hex_def hexByte_def)

text \<open>
  Claim C8. With a configured secret, the webhook answers 401 whenever the signature header
  differs from the hexadecimal HMAC-SHA-512 digest of the raw body, and answers 200 with
  \<open>{received: true}\<close> to every validly signed \<open>charge.success\<close> event, whatever the
  bookings table holds. The digest of the external primitive is not empty (it has 64 bytes).
\<close>

theorem webhook_signature_gate:
  assumes secret: "PAYSTACK_SECRET_KEY e \<noteq> []"
    and digest: "hmac_sha512 e (PAYSTACK_SECRET_KEY e) rawBody \<noteq> []"
  shows "(signature \<noteq> hmacSha512Hex e (PAYSTACK_SECRET_KEY e) rawBody \<longrightarrow>
            handlePaystackWebhook e db rawBody signature
              = (failure 401 InvalidWebhookSignature, db))
         \<and> (signature = hmacSha512Hex e (PAYSTACK_SECRET_KEY e) rawBody \<longrightarrow>
             (\<forall>event. json_parse e rawBody = Some event \<longrightarrow> ev_event event = js ''charge.success''
                \<longrightarrow> fst (handlePaystackWebhook e db rawBody signature) = success ReceivedBody))"
proof (intro conjI impI allI)
  assume "signature \<noteq> hmacSha512Hex e (PAYSTACK_SECRET_KEY e) rawBody"
  then have "\<not> timingSafeEqual signature (hmacSha512Hex e (PAYSTACK_SECRET_KEY e) rawBody)"
    by (simp add: timingSafeEqual_iff)
  with secret show "handlePaystackWebhook e db rawBody signature
      = (failure 401 InvalidWebhookSignature, db)"
    by (simp add: handlePaystackWebhook_def Let_def)
next
  fix event
  assume sig: "signature = hmacSha512Hex e (PAYSTACK_SECRET_KEY e) rawBody"
    and ev: "json_parse e rawBody = Some event" "ev_event event = js ''charge.success''"
  from sig digest have "timingSafeEqual signature (hmacSha512Hex e (PAYSTACK_SECRET_KEY e) rawBody)"
    by (simp add: timingSafeEqual_iff hmacSha512Hex_nonempty)
  with secret ev show "fst (handlePaystackWebhook e db rawBody signature) = success ReceivedBody"
    by (simp add: handlePaystackWebhook_def Let_def)
qed

lemma sample_digest_length:
  "length (hmacSha512Hex sample_env (PAYSTACK_SECRET_KEY sample_env) b) = 128"
  by (simp add: hmacSha512Hex_def sample_env_def hexByte_def length_concat sum_list_replicate)

theorem webhook_signature_gate_witness:
  "PAYSTACK_SECRET_KEY sample_env \<noteq> []
   \<and> hmac_sha512 sample_env (PAYSTACK_SECRET_KEY sample_env) (js ''{}'') \<noteq> []
   \<and> js ''00'' \<noteq> hmacSha512Hex sample_env (PAYSTACK_SECRET_KEY sample_env) (js ''{}'')
   \<and> handlePaystackWebhook sample_env empty_database (js ''{}'') (js ''00'')
        = (failure 401 InvalidWebhookSignature, empty_database)
   \<and> json_parse sample_env (js ''{}'')
        = Some \<lparr>ev_event = js ''charge.success'', ev_reference = js ''R9''\<rparr>
   \<and> fst (handlePaystackWebhook sample_env empty_database (js ''{}'')
             (hmacSha512Hex sample_env (PAYSTACK_SECRET_KEY sample_env) (js ''{}'')))
        = success ReceivedBody"
proof -
  have s: "PAYSTACK_SECRET_KEY sample_env \<noteq> []"
    by (simp add: sample_env_def js_def)
  have d: "hmac_sha512 sample_env (PAYSTACK_SECRET_KEY sample_env) (js ''{}'') \<noteq> []"
    by (simp add: sample_env_def)
  have n: "js ''00'' \<noteq> hmacSha512Hex sample_env (PAYSTACK_SECRET_KEY sample_env) (js ''{}'')"
  proof
    assume "js ''00'' = hmacSha512Hex sample_env (PAYSTACK_SECRET_KEY sample_env) (js ''{}'')"
    then have "length (js ''00'') = 128"
      by (simp add: sample_digest_length)
    then show False by (simp add: js_def)
  qed
  have p: "json_parse sample_env (js ''{}'')
        = Some \<lparr>ev_event = js ''charge.success'', ev_reference = js ''R9''\<rparr>"
    by (simp add: sample_env_def)
  from webhook_signature_gate [OF s d, of "js ''00''" empty_database]
       webhook_signature_gate [OF s d,
         of "hmacSha512Hex sample_env (PAYSTACK_SECRET_KEY sample_env) (js ''{}'')" empty_database]
       s d n p
  show ?thesis by simp
qed


section \<open>Seat availability\<close>








lemma normalize_canonical:
  assumes "normalizeSeatNumberRaw s capacity = Some k"
  shows "k = String_nat (Number_digits k) \<and> 1 \<le> Number_digits k
         \<and> Number_digits k \<le> (if capacity = 0 then 50 else capacity)"
  using assms
  by (auto simp: normalizeSeatNumberRaw_def Let_def Number_digits_String_nat
           split: if_splits option.splits)

lemma allSeats_eq: "map (\<lambda>i. String_nat (i + 1)) [0..<capacity] = map String_nat [1..<Suc capacity]"
proof -
  have "map (\<lambda>i. String_nat (i + 1)) [0..<capacity] = map String_nat (map Suc [0..<capacity])"
    by simp
  then show ?thesis by (simp only: map_Suc_upt) simp
qed







lemma String_nat_two: "10 \<le> n \<Longrightarrow> n < 100 \<Longrightarrow> String_nat n = [48 + n div 10, 48 + n mod 10]"
  by (subst String_nat.simps) (simp add: String_nat_small)

lemmas seat_eval =
  normalizeSeatNumberRaw_def js_def trim_def toUpperCase_def isWhiteSpace_def
  matchNumeric_def matchLegacy_def isDigit_def afterZeros_def Number_digits_def
  String_nat_small String_nat_two










section \<open>Payment verification\<close>





section \<open>Idempotency over the payment reference\<close>

lemma sqlLike_percent: "sqlLike [37] t"
  by (induction t) auto

lemma sqlLike_skip: "sqlLike q t \<Longrightarrow> sqlLike (37 # q) t"
  by (cases t) auto

lemma sqlLike_prefix: "sqlLike (r @ [58, 37]) (r @ 58 # rest)"
proof (induction r)
  case Nil
  show ?case by (simp add: sqlLike_percent)
next
  case (Cons p r)
  show ?case
  proof (cases "p = 37")
    case True
    from Cons.IH have "sqlLike (37 # r @ [58, 37]) (r @ 58 # rest)"
      by (rule sqlLike_skip)
    with True show ?thesis by simp
  next
    case False
    with Cons.IH show ?thesis by simp
  qed
qed

lemma refMatches_prefix:
  assumes "booking_external_ref b = ref \<or> (\<exists>rest. booking_external_ref b = ref @ js '':'' @ rest)"
  shows "refMatches ref b"
proof -
  have "sqlLike (ref @ js '':%'') (ref @ js '':'' @ rest)" for rest
    using sqlLike_prefix [of ref rest] by (simp add: js_def)
  with assms show ?thesis by (auto simp: refMatches_def)
qed

lemma existingRows_member:
  assumes "b \<in> set (bookings db)" and "refMatches ref b"
    and "bus \<in> set (buses db)" and "bus_id bus = booking_bus_id b"
    and "r \<in> set (routes db)" and "bus_route_id bus = Some (route_id r)"
  shows "(b, bus, r) \<in> set (existingRowsForRef db ref)"
  using assms by (auto simp: existingRowsForRef_def)

lemma existingRows_ids:
  "cf_booking_ids (duplicateConfirmation db data capacity rows)
     = map (\<lambda>(b, bus, r). Some (booking_id b)) rows"
  "cf_duplicate (duplicateConfirmation db data capacity rows)"
  by (simp_all add: duplicateConfirmation_def Let_def)

text \<open>
  Claim C3. When a booking row exists whose external reference is the payment reference,
  or the reference followed by a colon and a seat, (with the bus and route rows that the
  idempotency query joins to it), the finalizer leaves the database as it was: no new
  passenger row, no new booking row and no text message. A valid request is answered with
  the confirmation of the existing bookings, marked as a duplicate.
\<close>

theorem confirm_idempotent:
  assumes row: "b \<in> set (bookings db)"
    and ref: "booking_external_ref b = cr_paystackRef data
              \<or> (\<exists>rest. booking_external_ref b = cr_paystackRef data @ js '':'' @ rest)"
    and bus: "bus \<in> set (buses db)" "bus_id bus = booking_bus_id b"
    and route: "r \<in> set (routes db)" "bus_route_id bus = Some (route_id r)"
  shows "snd (handleBookingConfirm e db now data) = db
     \<and> passengers (snd (handleBookingConfirm e db now data)) = passengers db
     \<and> bookings (snd (handleBookingConfirm e db now data)) = bookings db
     \<and> sms_sent (snd (handleBookingConfirm e db now data)) = sms_sent db
     \<and> ((\<exists>cx. confirmValidate db data = Inr cx) \<longrightarrow>
          (\<exists>c. fst (handleBookingConfirm e db now data) = success (ConfirmBody c)
             \<and> cf_duplicate c
             \<and> cf_booking_ids c
                 = map (\<lambda>(b, bus, r). Some (booking_id b))
                     (existingRowsForRef db (cr_paystackRef data))
             \<and> Some (booking_id b) \<in> set (cf_booking_ids c)))"
proof -
  have m: "(b, bus, r) \<in> set (existingRowsForRef db (cr_paystackRef data))"
    using row refMatches_prefix [OF ref] bus route by (rule existingRows_member)
  then have ne: "existingRowsForRef db (cr_paystackRef data) \<noteq> []"
    by auto
  have same: "snd (handleBookingConfirm e db now data) = db"
    using ne by (simp add: handleBookingConfirm_def Let_def split: sum.splits)
  have dup: "\<exists>c. fst (handleBookingConfirm e db now data) = success (ConfirmBody c)
             \<and> cf_duplicate c
             \<and> cf_booking_ids c
                 = map (\<lambda>(b, bus, r). Some (booking_id b))
                     (existingRowsForRef db (cr_paystackRef data))
             \<and> Some (booking_id b) \<in> set (cf_booking_ids c)"
    if "confirmValidate db data = Inr cx" for cx
  proof -
    let ?c = "duplicateConfirmation db data (cx_capacity cx)
                (existingRowsForRef db (cr_paystackRef data))"
    have "fst (handleBookingConfirm e db now data) = success (ConfirmBody ?c)"
      using that ne by (simp add: handleBookingConfirm_def Let_def)
    moreover have "Some (booking_id b) \<in> set (cf_booking_ids ?c)"
      using m by (force simp: existingRows_ids)
    ultimately show ?thesis
      by (intro exI [of _ ?c]) (simp add: existingRows_ids)
  qed
  from same dup show ?thesis by auto
qed

section \<open>Conditional insert, roll-back and the booking invariant\<close>

lemma next_rowid_fresh: "i \<in> set ids \<Longrightarrow> i < next_rowid ids"
  by (induction ids) (auto simp: next_rowid_def)








lemma insert_refused:
  assumes "list_ex (\<lambda>r. booking_bus_id r = bp_busId p
              \<and> coalesce_trip (booking_trip_id r) = coalesce_trip (bp_tripId p)
              \<and> (booking_seat_number r = bp_seatNumber p
                  \<or> booking_seat_number r = (if bp_legacySeatNumber p = [] then bp_seatNumber p
                                              else bp_legacySeatNumber p))
              \<and> booking_status r = js ''confirmed'') (bookings db)"
  shows "insertConfirmedBookingAtomic db p = (\<lparr>inserted = False, bookingId = None\<rparr>, db)"
  using assms by (simp add: insertConfirmedBookingAtomic_def Let_def)

lemma insert_cases:
  obtains (refused) "insertConfirmedBookingAtomic db p = (\<lparr>inserted = False, bookingId = None\<rparr>, db)"
  | (added) row where
      "insertConfirmedBookingAtomic db p
         = (\<lparr>inserted = True, bookingId = Some (booking_id row)\<rparr>,
            db\<lparr>bookings := bookings db @ [row]\<rparr>)"
      "booking_id row = next_rowid (map booking_id (bookings db))"
      "booking_bus_id row = bp_busId p" "booking_trip_id row = bp_tripId p"
      "booking_seat_number row = bp_seatNumber p" "booking_status row = js ''confirmed''"
      "booking_external_ref row = bp_externalRef p" "booking_passenger_id row = bp_passengerId p"
      "\<not> list_ex (\<lambda>r. booking_bus_id r = bp_busId p
              \<and> coalesce_trip (booking_trip_id r) = coalesce_trip (bp_tripId p)
              \<and> (booking_seat_number r = bp_seatNumber p
                  \<or> booking_seat_number r = (if bp_legacySeatNumber p = [] then bp_seatNumber p
                                              else bp_legacySeatNumber p))
              \<and> booking_status r = js ''confirmed'') (bookings db)"
proof (cases "list_ex (\<lambda>r. booking_bus_id r = bp_busId p
              \<and> coalesce_trip (booking_trip_id r) = coalesce_trip (bp_tripId p)
              \<and> (booking_seat_number r = bp_seatNumber p
                  \<or> booking_seat_number r = (if bp_legacySeatNumber p = [] then bp_seatNumber p
                                              else bp_legacySeatNumber p))
              \<and> booking_status r = js ''confirmed'') (bookings db)")
  case True
  then show ?thesis by (intro refused insert_refused)
next
  case False
  let ?row = "\<lparr>booking_id = next_rowid (map booking_id (bookings db)),
                booking_passenger_id = bp_passengerId p,
                booking_bus_id = bp_busId p, booking_trip_id = bp_tripId p,
                booking_seat_number = bp_seatNumber p,
                booking_price_paid = bp_pricePaid p,
                booking_status = js ''confirmed'',
                booking_external_ref = bp_externalRef p\<rparr>"
  show ?thesis
  proof (rule added [of ?row])
    show "insertConfirmedBookingAtomic db p
         = (\<lparr>inserted = True, bookingId = Some (booking_id ?row)\<rparr>,
            db\<lparr>bookings := bookings db @ [?row]\<rparr>)"
      using False by (simp add: insertConfirmedBookingAtomic_def Let_def truthy_def next_rowid_def)
  qed (use False in simp_all)
qed



lemma rollback_fold_bookings:
  "bookings (foldl (\<lambda>d bid. d\<lparr>bookings :=
                         filter (\<lambda>r. Some (booking_id r) \<noteq> bid) (bookings d)\<rparr>) db ids)
     = filter (\<lambda>r. Some (booking_id r) \<notin> set ids) (bookings db)"
  by (induction ids arbitrary: db) (auto intro: filter_cong)

lemma rollback_fold_passengers:
  "passengers (foldl (\<lambda>d bid. d\<lparr>bookings :=
                         filter (\<lambda>r. Some (booking_id r) \<noteq> bid) (bookings d)\<rparr>) db ids)
     = passengers db"
  by (induction ids arbitrary: db) auto

lemma rollback_bookings:
  "bookings (rollbackBookings db ids pid)
     = filter (\<lambda>r. Some (booking_id r) \<notin> set ids) (bookings db)"
  by (simp add: rollbackBookings_def Let_def rollback_fold_bookings)

lemma rollback_passengers:
  "passengers (rollbackBookings db ids pid)
     = filter (\<lambda>p. passenger_id p \<noteq> pid) (passengers db)"
  by (simp add: rollbackBookings_def Let_def rollback_fold_passengers)


text \<open>
  The loop on a table \<open>base @ new\<close>, where \<open>new\<close> holds the rows created so far: a refusal
  gives \<open>base\<close> back and removes the passenger.
\<close>

lemma insertSeatBookings_rollback:
  assumes "bookings db = base @ new"
    and "map (\<lambda>r. Some (booking_id r)) new = created"
    and "\<forall>r \<in> set base. \<forall>r' \<in> set new. booking_id r \<noteq> booking_id r'"
    and "insertSeatBookings db pid busId tripKey paid ref single seatKeys created = (Inl k, db')"
  shows "bookings db' = base
         \<and> passengers db' = filter (\<lambda>p. passenger_id p \<noteq> pid) (passengers db)"
  using assms
proof (induction seatKeys arbitrary: db new created)
  case Nil
  then show ?case by simp
next
  case (Cons s ss)
  let ?p = "\<lparr>bp_passengerId = pid, bp_busId = busId, bp_tripId = tripKey,
              bp_seatNumber = s, bp_legacySeatNumber = legacySeatOf s,
              bp_pricePaid = paid,
              bp_externalRef = (if single then ref else ref @ js '':'' @ s)\<rparr>"
  show ?case
  proof (cases rule: insert_cases [of db ?p])
    case refused
    with Cons.prems(4) have db': "db' = rollbackBookings db created pid"
      by (simp add: Let_def)
    have "filter (\<lambda>r. Some (booking_id r) \<notin> set created) (base @ new) = base"
    proof -
      have "filter (\<lambda>r. Some (booking_id r) \<notin> set created) new = []"
        using Cons.prems(2) by (auto simp: filter_empty_conv)
      moreover have "filter (\<lambda>r. Some (booking_id r) \<notin> set created) base = base"
        using Cons.prems(2,3) by (auto simp: filter_id_conv)
      ultimately show ?thesis by simp
    qed
    with db' Cons.prems(1) show ?thesis
      by (simp add: rollback_bookings rollback_passengers)
  next
    case (added row)
    let ?db1 = "db\<lparr>bookings := bookings db @ [row]\<rparr>"
    from added(1) Cons.prems(4)
    have run: "insertSeatBookings ?db1 pid busId tripKey paid ref single ss
                 (created @ [Some (booking_id row)]) = (Inl k, db')"
      by (simp add: Let_def)
    have fresh: "\<forall>r \<in> set base. booking_id r \<noteq> booking_id row"
    proof
      fix r assume "r \<in> set base"
      then have "booking_id r \<in> set (map booking_id (bookings db))"
        using Cons.prems(1) by simp
      from next_rowid_fresh [OF this] added(2) show "booking_id r \<noteq> booking_id row"
        by simp
    qed
    have "bookings db' = base
         \<and> passengers db' = filter (\<lambda>p. passenger_id p \<noteq> pid) (passengers ?db1)"
    proof (rule Cons.IH [of ?db1 "new @ [row]" "created @ [Some (booking_id row)]"])
      show "bookings ?db1 = base @ new @ [row]"
        using Cons.prems(1) by simp
      show "map (\<lambda>r. Some (booking_id r)) (new @ [row]) = created @ [Some (booking_id row)]"
        using Cons.prems(2) by simp
      show "\<forall>r \<in> set base. \<forall>r' \<in> set (new @ [row]). booking_id r \<noteq> booking_id r'"
        using Cons.prems(3) fresh by auto
      show "insertSeatBookings ?db1 pid busId tripKey paid ref single ss
                 (created @ [Some (booking_id row)]) = (Inl k, db')"
        by (rule run)
    qed
    then show ?thesis by simp
  qed
qed

lemma legacySeatOf_nonempty: "k \<noteq> [] \<Longrightarrow> legacySeatOf k \<noteq> []"
  by (auto simp: legacySeatOf_def canonicalSeatToLegacy_def Let_def split: option.splits if_splits)

lemma insertSeatBookings_refuses:
  assumes "\<exists>k \<in> set seatKeys. seatTaken (bookings db) busId tripKey k"
    and "\<forall>k \<in> set seatKeys. k \<noteq> []"
  shows "\<exists>k db'. insertSeatBookings db pid busId tripKey paid ref single seatKeys created
                    = (Inl k, db')"
  using assms
proof (induction seatKeys arbitrary: db created)
  case Nil
  then show ?case by simp
next
  case (Cons s ss)
  let ?p = "\<lparr>bp_passengerId = pid, bp_busId = busId, bp_tripId = tripKey,
              bp_seatNumber = s, bp_legacySeatNumber = legacySeatOf s,
              bp_pricePaid = paid,
              bp_externalRef = (if single then ref else ref @ js '':'' @ s)\<rparr>"
  show ?case
  proof (cases rule: insert_cases [of db ?p])
    case refused
    then show ?thesis by (simp add: Let_def)
  next
    case (added row)
    let ?db1 = "db\<lparr>bookings := bookings db @ [row]\<rparr>"
    from Cons.prems(2) have sne: "legacySeatOf s \<noteq> []"
      by (simp add: legacySeatOf_nonempty)
    have "\<not> seatTaken (bookings db) busId tripKey s"
      using added(9) sne by (auto simp: seatTaken_def list_ex_iff)
    with Cons.prems(1) have "\<exists>k \<in> set ss. seatTaken (bookings db) busId tripKey k"
      by auto
    then have "\<exists>k \<in> set ss. seatTaken (bookings ?db1) busId tripKey k"
      by (auto simp: seatTaken_def)
    moreover from Cons.prems(2) have "\<forall>k \<in> set ss. k \<noteq> []"
      by simp
    ultimately have "\<exists>k db'. insertSeatBookings ?db1 pid busId tripKey paid ref single ss
                          (created @ [Some (booking_id row)]) = (Inl k, db')"
      by (rule Cons.IH)
    then obtain k db' where "insertSeatBookings ?db1 pid busId tripKey paid ref single ss
                          (created @ [Some (booking_id row)]) = (Inl k, db')"
      by blast
    with added(1) show ?thesis by (simp add: Let_def)
  qed
qed


lemma canonicalKey_nonempty: "canonicalKey k \<Longrightarrow> k \<noteq> []"
  by (metis canonicalKey_def String_nat_nonempty)

lemma normalize_canonicalKey: "normalizeSeatNumberRaw s capacity = Some k \<Longrightarrow> canonicalKey k"
  using normalize_canonical [of s capacity k] by (simp add: canonicalKey_def)

lemma collectSeatKeys_canonical:
  assumes "collectSeatKeys raw capacity acc = Inr keys" and "\<forall>k \<in> set acc. canonicalKey k"
  shows "\<forall>k \<in> set keys. canonicalKey k"
  using assms
proof (induction raw arbitrary: acc)
  case Nil
  then show ?case by simp
next
  case (Cons s raw)
  from Cons.prems(1) obtain k where k: "normalizeSeatNumberRaw s capacity = Some k"
    by (cases "normalizeSeatNumberRaw s capacity") simp_all
  with Cons.prems(1)
  have run: "collectSeatKeys raw capacity (if k \<in> set acc then acc else acc @ [k]) = Inr keys"
    by simp
  have "\<forall>k' \<in> set (if k \<in> set acc then acc else acc @ [k]). canonicalKey k'"
    using Cons.prems(2) normalize_canonicalKey [OF k] by auto
  with run show ?case by (rule Cons.IH)
qed

lemma confirmValidate_keys:
  assumes "confirmValidate db data = Inr cx"
  shows "\<forall>k \<in> set (cx_seatKeys cx). canonicalKey k"
proof -
  from assms obtain raw where "collectSeatKeys raw (cx_capacity cx) [] = Inr (cx_seatKeys cx)"
    by (auto simp: confirmValidate_def Let_def split: sum.splits if_splits)
  then show ?thesis
    by (rule collectSeatKeys_canonical) simp
qed

lemma refreshAvailableSeats_bookings [simp]:
  "bookings (refreshAvailableSeats db busId tripKey) = bookings db"
  "passengers (refreshAvailableSeats db busId tripKey) = passengers db"
  by (simp_all add: refreshAvailableSeats_def Let_def split: option.splits)

lemma saveReceiptForBooking_bookings [simp]:
  "bookings (saveReceiptForBooking db bid u d) = bookings db"
  "passengers (saveReceiptForBooking db bid u d) = passengers db"
  by (simp_all add: saveReceiptForBooking_def split: option.splits)

lemma saveReceipts_bookings [simp]:
  "bookings (foldl (\<lambda>d i. saveReceiptForBooking d i u g) db ids) = bookings db"
  "passengers (foldl (\<lambda>d i. saveReceiptForBooking d i u g) db ids) = passengers db"
  by (induction ids arbitrary: db) simp_all


lemma passenger_rollback:
  "filter (\<lambda>p. passenger_id p \<noteq> next_rowid (map passenger_id ps))
     (ps @ [p\<lparr>passenger_id := next_rowid (map passenger_id ps)\<rparr>]) = ps"
proof -
  have "\<forall>q \<in> set ps. passenger_id q \<noteq> next_rowid (map passenger_id ps)"
    using next_rowid_fresh [of _ "map passenger_id ps"] by fastforce
  then show ?thesis by (simp add: filter_id_conv)
qed

text \<open>
  Claim C4. When finalization has reached the inserts and a confirmed booking exists for
  one of the requested seats (same bus, same trip, canonical or legacy form), the request
  fails with \<open>SeatAlreadyBooked\<close>, and the bookings and passengers tables are as they
  were before the request.
\<close>

theorem refused_insert_rolls_back:
  assumes valid: "confirmValidate db data = Inr cx"
    and fresh: "existingRowsForRef db (cr_paystackRef data) = []"
    and paid: "confirmVerify e data = Inr v"
    and locks: "collectOwnedLocks db now (cr_busId data) (cx_tripKey cx) (cr_lockId data)
                  (cx_capacity cx) (cx_seatKeys cx) = Inr ownedLocks"
    and taken: "\<exists>k \<in> set (cx_seatKeys cx).
                  seatTaken (bookings db) (cr_busId data) (cx_tripKey cx) k"
  shows "\<exists>k. fst (handleBookingConfirm e db now data) = failure 400 (SeatAlreadyBooked (Some k))
     \<and> bookings (snd (handleBookingConfirm e db now data)) = bookings db
     \<and> passengers (snd (handleBookingConfirm e db now data)) = passengers db"
proof -
  define pid where "pid = next_rowid (map passenger_id (passengers db))"
  define p where "p = \<lparr>passenger_id = pid,
                        passenger_first_name = cr_firstName data,
                        passenger_last_name = cr_lastName data,
                        passenger_email = cr_email data,
                        passenger_phone = cr_phone data,
                        passenger_nok_name = cr_nokName data,
                        passenger_nok_phone = cr_nokPhone data\<rparr>"
  define db1 where "db1 = db\<lparr>passengers := passengers db @ [p]\<rparr>"
  define total where "total = (case cr_price data of None \<Rightarrow> 0 | Some x \<Rightarrow> x)"
  define per where "per = (case cr_unitPrice data of
                             None \<Rightarrow> total / of_nat (length (cx_seatKeys cx))
                           | Some u \<Rightarrow> if u > 0 then u
                                       else total / of_nat (length (cx_seatKeys cx)))"
  let ?loop = "insertSeatBookings db1 pid (cr_busId data) (cx_tripKey cx) per
                 (cr_paystackRef data) (length (cx_seatKeys cx) = 1) (cx_seatKeys cx) []"
  have ne: "\<forall>k \<in> set (cx_seatKeys cx). k \<noteq> []"
    using confirmValidate_keys [OF valid] canonicalKey_nonempty by blast
  have "\<exists>k \<in> set (cx_seatKeys cx).
          seatTaken (bookings db1) (cr_busId data) (cx_tripKey cx) k"
    using taken by (simp add: db1_def)
  from insertSeatBookings_refuses [OF this ne]
  obtain k db' where loop: "?loop = (Inl k, db')"
    by blast
  have "bookings db' = bookings db
        \<and> passengers db' = filter (\<lambda>q. passenger_id q \<noteq> pid) (passengers db1)"
    by (rule insertSeatBookings_rollback [where new = "[]" and created = "[]", OF _ _ _ loop])
       (simp_all add: db1_def)
  moreover have "filter (\<lambda>q. passenger_id q \<noteq> pid) (passengers db1) = passengers db"
    using passenger_rollback [of "passengers db" p] by (simp add: db1_def pid_def p_def)
  moreover have "handleBookingConfirm e db now data
                   = (failure 400 (SeatAlreadyBooked (Some k)), db')"
    using valid fresh paid locks loop [unfolded db1_def p_def pid_def per_def total_def]
    by (simp add: handleBookingConfirm_def Let_def)
  ultimately show ?thesis by auto
qed





section \<open>The finalizer on the sample bus\<close>

lemma booking_db_fields:
  "routes booking_db = [\<lparr>route_id = 2, route_name = js ''Accra - Kumasi''\<rparr>]"
  "buses booking_db = [\<lparr>bus_id = 3, bus_route_id = Some 2, bus_name = js ''VIP 1'', bus_capacity = 12,
                 bus_available_seats = 11, bus_price = 50\<rparr>]"
  "trip_schedules booking_db = []"
  "passengers booking_db = [\<lparr>passenger_id = 6, passenger_first_name = js ''Kofi'',
                      passenger_last_name = js ''Boateng'', passenger_email = js ''kofi@elite.test'',
                      passenger_phone = js ''0200000000'', passenger_nok_name = [],
                      passenger_nok_phone = []\<rparr>]"
  "bookings booking_db =
        [\<lparr>booking_id = 8, booking_passenger_id = 6, booking_bus_id = 3, booking_trip_id = None,
          booking_seat_number = js ''4'', booking_price_paid = 50,
          booking_status = js ''confirmed'', booking_external_ref = js ''R0''\<rparr>]"
  "seat_locks booking_db =
        [\<lparr>lock_id = 2, lock_bus_id = 3, lock_trip_id = None, lock_seat_number = js ''5'',
          lock_locked_by = js ''LA'', lock_expires_at = 400\<rparr>,
         \<lparr>lock_id = 4, lock_bus_id = 3, lock_trip_id = None, lock_seat_number = js ''4'',
          lock_locked_by = js ''LA'', lock_expires_at = 400\<rparr>]"
  "users booking_db =
        [\<lparr>user_id = 2, user_email = js ''Admin@elite.test'', user_first_name = js ''Esi'',
          user_last_name = js ''Owusu'', user_phone = js ''0500000000'',
          user_password_hash = js ''pbkdf2$120000$x'', user_auth_method = js ''email''\<rparr>]"
  "auth_sessions booking_db =
        [\<lparr>session_user_id = 2, session_token = js ''tok_2_1_abc'',
          session_expires_at = 1000\<rparr>]"
  by (simp_all add: booking_db_def empty_database_def)

lemma sample_seat_5: "normalizeSeatNumberRaw (js ''5'') 12 = Some (js ''5'')"
  by (simp add: seat_eval)
lemma sample_seat_4: "normalizeSeatNumberRaw (js ''4'') 12 = Some (js ''4'')"
  by (simp add: seat_eval)

lemma booking_db_trip: "resolveTripForBus booking_db 3 None = Inr None"
  by (simp add: resolveTripForBus_def booking_db_fields truthy_def latest_trip_def)

lemma booking_db_capacity: "getBusCapacity booking_db 3 = Inr 12"
  by (simp add: getBusCapacity_def booking_db_fields)


lemma fresh_R1: "existingRowsForRef booking_db (js ''R1'') = []"
  by (simp add: existingRowsForRef_def booking_db_fields refMatches_def)
     (simp add: js_def toLowerCase_def)



lemma existing_R0:
  "existingRowsForRef booking_db (js ''R0'')
     = [(\<lparr>booking_id = 8, booking_passenger_id = 6, booking_bus_id = 3, booking_trip_id = None,
          booking_seat_number = js ''4'', booking_price_paid = 50,
          booking_status = js ''confirmed'', booking_external_ref = js ''R0''\<rparr>,
        \<lparr>bus_id = 3, bus_route_id = Some 2, bus_name = js ''VIP 1'', bus_capacity = 12,
                 bus_available_seats = 11, bus_price = 50\<rparr>,
        \<lparr>route_id = 2, route_name = js ''Accra - Kumasi''\<rparr>)]"
  by (simp add: existingRowsForRef_def booking_db_fields refMatches_def)

lemma validate_retry_R0:
  "confirmValidate booking_db confirm_retry_R0
     = Inr \<lparr>cx_trip = None, cx_tripKey = None, cx_capacity = 12, cx_seatKeys = [js ''5'']\<rparr>"
  by (simp add: confirmValidate_def confirm_retry_R0_def confirm_seat_5_def booking_db_trip
        booking_db_capacity sample_seat_5 tripKeyOf_def truthy_def)
     (simp add: js_def)

theorem confirm_idempotent_witness:
  "hd (bookings booking_db) \<in> set (bookings booking_db)
   \<and> booking_external_ref (hd (bookings booking_db)) = cr_paystackRef confirm_retry_R0
   \<and> hd (buses booking_db) \<in> set (buses booking_db)
   \<and> bus_id (hd (buses booking_db)) = booking_bus_id (hd (bookings booking_db))
   \<and> hd (routes booking_db) \<in> set (routes booking_db)
   \<and> bus_route_id (hd (buses booking_db)) = Some (route_id (hd (routes booking_db)))
   \<and> confirmValidate booking_db confirm_retry_R0
       = Inr \<lparr>cx_trip = None, cx_tripKey = None, cx_capacity = 12, cx_seatKeys = [js ''5'']\<rparr>
   \<and> snd (handleBookingConfirm sample_env booking_db 100 confirm_retry_R0) = booking_db
   \<and> (\<exists>c. fst (handleBookingConfirm sample_env booking_db 100 confirm_retry_R0)
              = success (ConfirmBody c)
          \<and> cf_duplicate c \<and> cf_booking_ids c = [Some 8])"
proof -
  have a: "hd (bookings booking_db) \<in> set (bookings booking_db)"
    and b: "booking_external_ref (hd (bookings booking_db)) = cr_paystackRef confirm_retry_R0
              \<or> (\<exists>rest. booking_external_ref (hd (bookings booking_db))
                           = cr_paystackRef confirm_retry_R0 @ js '':'' @ rest)"
    and c: "hd (buses booking_db) \<in> set (buses booking_db)"
    and d: "bus_id (hd (buses booking_db)) = booking_bus_id (hd (bookings booking_db))"
    and f: "hd (routes booking_db) \<in> set (routes booking_db)"
    and g: "bus_route_id (hd (buses booking_db)) = Some (route_id (hd (routes booking_db)))"
    by (simp_all add: booking_db_fields confirm_retry_R0_def confirm_seat_5_def)
  have r: "cr_paystackRef confirm_retry_R0 = js ''R0''"
    by (simp add: confirm_retry_R0_def)
  from confirm_idempotent [OF a b c d f g, of sample_env 100] validate_retry_R0
  have "snd (handleBookingConfirm sample_env booking_db 100 confirm_retry_R0) = booking_db"
    and "\<exists>c. fst (handleBookingConfirm sample_env booking_db 100 confirm_retry_R0)
              = success (ConfirmBody c)
          \<and> cf_duplicate c \<and> cf_booking_ids c = [Some 8]"
    by (simp_all add: r existing_R0) blast
  with a c d f g validate_retry_R0 show ?thesis
    by (simp add: booking_db_fields r)
qed


lemma validate_seats_5_4:
  "confirmValidate booking_db confirm_seats_5_4
     = Inr \<lparr>cx_trip = None, cx_tripKey = None, cx_capacity = 12,
            cx_seatKeys = [js ''5'', js ''4'']\<rparr>"
  by (simp add: confirmValidate_def confirm_seats_5_4_def confirm_seat_5_def booking_db_trip
        booking_db_capacity sample_seat_5 sample_seat_4 tripKeyOf_def truthy_def)
     (simp add: js_def)

lemma verify_seats_5_4:
  "confirmVerify sample_env confirm_seats_5_4
     = Inr \<lparr>vf_verified = True, vf_status = js ''success'', vf_amountKobo = 5000\<rparr>"
  by (simp add: confirmVerify_def verifyPaystackTransaction_def confirm_seats_5_4_def
        confirm_seat_5_def sample_env_def expectedKobo_def)
     (simp add: js_def)

lemma locks_seats_5_4:
  "collectOwnedLocks booking_db 100 3 None (js ''LA'') 12 [js ''5'', js ''4'']
     = Inr (seat_locks booking_db)"
  by (simp add: findOwnedActiveLockForSeat_def listActiveLocksForBusTrip_def truthy_def
        booking_db_fields sample_seat_5 sample_seat_4)
     (simp add: js_def)

lemma taken_seat_4: "seatTaken (bookings booking_db) 3 None (js ''4'')"
  by (simp add: seatTaken_def booking_db_fields)

theorem refused_insert_rolls_back_witness:
  "confirmValidate booking_db confirm_seats_5_4
     = Inr \<lparr>cx_trip = None, cx_tripKey = None, cx_capacity = 12,
            cx_seatKeys = [js ''5'', js ''4'']\<rparr>
   \<and> existingRowsForRef booking_db (cr_paystackRef confirm_seats_5_4) = []
   \<and> confirmVerify sample_env confirm_seats_5_4
     = Inr \<lparr>vf_verified = True, vf_status = js ''success'', vf_amountKobo = 5000\<rparr>
   \<and> collectOwnedLocks booking_db 100 (cr_busId confirm_seats_5_4) None
         (cr_lockId confirm_seats_5_4) 12 [js ''5'', js ''4''] = Inr (seat_locks booking_db)
   \<and> seatTaken (bookings booking_db) (cr_busId confirm_seats_5_4) None (js ''4'')
   \<and> (\<exists>k. fst (handleBookingConfirm sample_env booking_db 100 confirm_seats_5_4)
              = failure 400 (SeatAlreadyBooked (Some k)))
   \<and> bookings (snd (handleBookingConfirm sample_env booking_db 100 confirm_seats_5_4))
       = bookings booking_db
   \<and> passengers (snd (handleBookingConfirm sample_env booking_db 100 confirm_seats_5_4))
       = passengers booking_db"
proof -
  let ?cx = "\<lparr>cx_trip = None, cx_tripKey = None, cx_capacity = 12,
              cx_seatKeys = [js ''5'', js ''4'']\<rparr>"
  have r: "cr_paystackRef confirm_seats_5_4 = js ''R1''" "cr_busId confirm_seats_5_4 = 3"
    "cr_lockId confirm_seats_5_4 = js ''LA''"
    by (simp_all add: confirm_seats_5_4_def confirm_seat_5_def)
  have f: "existingRowsForRef booking_db (cr_paystackRef confirm_seats_5_4) = []"
    by (simp add: r fresh_R1)
  have l: "collectOwnedLocks booking_db 100 (cr_busId confirm_seats_5_4) (cx_tripKey ?cx)
             (cr_lockId confirm_seats_5_4) (cx_capacity ?cx) (cx_seatKeys ?cx)
           = Inr (seat_locks booking_db)"
    using locks_seats_5_4 by (simp add: r del: collectOwnedLocks.simps)
  have t: "\<exists>k \<in> set (cx_seatKeys ?cx).
             seatTaken (bookings booking_db) (cr_busId confirm_seats_5_4) (cx_tripKey ?cx) k"
    using taken_seat_4 by (simp add: r)
  from refused_insert_rolls_back [OF validate_seats_5_4 f verify_seats_5_4 l t]
       validate_seats_5_4 f verify_seats_5_4 locks_seats_5_4 taken_seat_4
  show ?thesis
    by (simp add: r del: collectOwnedLocks.simps)
qed



















section \<open>The seat lock manager keeps one lock per seat\<close>





lemma truthy_idem [simp]: "truthy (truthy x) = truthy x"
  by (simp add: truthy_def split: option.splits)

lemma truthy_tripKeyOf [simp]: "truthy (tripKeyOf trip) = tripKeyOf trip"
  by (simp add: tripKeyOf_def)


lemma cleanup_fields [simp]:
  "buses (cleanupSeatLocks db now busId seatKey legacySeat tripKey) = buses db"
  "bookings (cleanupSeatLocks db now busId seatKey legacySeat tripKey) = bookings db"
  "trip_schedules (cleanupSeatLocks db now busId seatKey legacySeat tripKey) = trip_schedules db"
  by (simp_all add: cleanupSeatLocks_def Let_def split: option.splits)









lemma listActive_truthy:
  "listActiveLocksForBusTrip db now busId tripKey
     = listActiveLocksForBusTrip db now busId (truthy tripKey)"
  by (simp add: listActiveLocksForBusTrip_def)



























section \<open>The lock manager on the sample bus\<close>











end
